theory Spec2Isabelle
  imports
    Complex_Main
    "HOL-Library.Char_ord"
    "HOL-Library.List_Lexorder"
    "HOL-Library.Product_Lexorder"
    "HOL-Library.Multiset"
begin

section \<open>Python values\<close>

text \<open>
  A Python float is not-a-number, one of the two infinities, or a finite value.  Finite
  doubles are modelled by the real numbers they denote: rounding, overflow and underflow
  of the arithmetic are not part of this development.
\<close>

datatype fl = NaN | PInf | NInf | Fin real

datatype error = ValueError | KeyError

fun isnan :: "fl \<Rightarrow> bool" where
  "isnan NaN = True"
| "isnan _ = False"

section \<open>Period aggregation (statisticsal\_inferences.py)\<close>



datatype period_label = POrd int | PStr string

record agg =
  agg_columns :: "string list"
  agg_rows :: "(period_label \<times> (string \<Rightarrow> real)) list"



text \<open>\<open>str(n)\<close> for a Python int: decimal digits, with a leading minus sign.\<close>

definition digit_char :: "nat \<Rightarrow> char" where
  "digit_char d = char_of (48 + d)"

fun str_nat :: "nat \<Rightarrow> string" where
  "str_nat n = (if n < 10 then [digit_char n] else str_nat (n div 10) @ [digit_char (n mod 10)])"

declare str_nat.simps [simp del]

definition str_int :: "int \<Rightarrow> string" where
  "str_int i = (if i < 0 then CHR ''-'' # str_nat (nat (- i)) else str_nat (nat i))"




section \<open>Statistical comparison (statisticsal\_inferences.py)\<close>

definition series :: "agg \<Rightarrow> string \<Rightarrow> real list" where
  "series a c = map (\<lambda>r. snd r c) (agg_rows a)"

definition nunique :: "real list \<Rightarrow> nat" where
  "nunique xs = length (remdups xs)"

definition mean :: "real list \<Rightarrow> real" where
  "mean xs = sum_list xs / real (length xs)"

text \<open>Sample standard deviation (\<open>ddof = 1\<close>), read only where the count is at least 2.\<close>

definition variance :: "real list \<Rightarrow> real" where
  "variance xs = sum_list (map (\<lambda>x. (x - mean xs)\<^sup>2) xs) / (real (length xs) - 1)"

definition std :: "real list \<Rightarrow> real" where
  "std xs = sqrt (variance xs)"

text \<open>Quantile with linear interpolation between the two nearest order statistics.\<close>

definition quantile :: "real list \<Rightarrow> real \<Rightarrow> real" where
  "quantile xs q =
     (let s = sort xs;
          h = (real (length xs) - 1) * q;
          lo = nat \<lfloor>h\<rfloor>;
          hi = nat \<lceil>h\<rceil>
      in s ! lo + (h - real lo) * (s ! hi - s ! lo))"

record desc =
  d_count :: nat
  d_mean :: real
  d_std :: real
  d_min :: real
  d_q25 :: real
  d_q50 :: real
  d_q75 :: real
  d_max :: real

definition describe :: "real list \<Rightarrow> desc" where
  "describe xs =
     \<lparr>d_count = length xs, d_mean = mean xs, d_std = std xs, d_min = Min (set xs),
      d_q25 = quantile xs (1/4), d_q50 = quantile xs (1/2), d_q75 = quantile xs (3/4),
      d_max = Max (set xs)\<rparr>"

text \<open>
  The hypothesis tests of scipy are parameters: each takes the two series and returns
  its statistic and its p-value.
\<close>

record scipy =
  ttest_ind :: "real list \<Rightarrow> real list \<Rightarrow> real \<times> real"
  mannwhitneyu :: "real list \<Rightarrow> real list \<Rightarrow> real \<times> real"
  f_oneway :: "real list \<Rightarrow> real list \<Rightarrow> real \<times> real"
  ks_2samp :: "real list \<Rightarrow> real list \<Rightarrow> real \<times> real"
  pearsonr :: "real list \<Rightarrow> real list \<Rightarrow> real \<times> real"

record corr =
  corr_coef :: real
  corr_pval :: real
  corr_significant :: bool
  corr_strength :: string

record inference =
  mean_diff :: real
  std_diff :: real
  min_diff :: real
  max_diff :: real
  q25_diff :: real
  q50_diff :: real
  q75_diff :: real
  t_stat :: real
  t_pval :: real
  t_significant :: bool
  u_stat :: real
  u_pval :: real
  u_significant :: bool
  anova_f_stat :: real
  anova_pval :: real
  anova_significant :: bool
  ks_stat :: real
  ks_pval :: real
  ks_significant :: bool
  correlation :: "corr option"
  cohens_d :: fl
  effect_size :: string

definition corr_strength_label :: "real \<Rightarrow> string" where
  "corr_strength_label r =
     (let a = \<bar>r\<bar> in
      if 0.1 < a \<and> a < 0.3 then ''weak''
      else if 0.3 < a \<and> a < 0.5 then ''moderate''
      else if a > 0.5 then ''strong''
      else ''none'')"

definition effect_size_label :: "real \<Rightarrow> string" where
  "effect_size_label d =
     (let a = \<bar>d\<bar> in
      if a < 0.2 then ''small''
      else if a < 0.5 then ''medium''
      else if a \<ge> 0.8 then ''large''
      else ''none'')"

definition pooled_std :: "real list \<Rightarrow> real list \<Rightarrow> real" where
  "pooled_std ly cy = sqrt (((std ly)\<^sup>2 + (std cy)\<^sup>2) / 2)"

text \<open>The body of the loop over the columns of interest, for an evaluated column.\<close>

definition evaluate_metric :: "scipy \<Rightarrow> real list \<Rightarrow> real list \<Rightarrow> inference" where
  "evaluate_metric S ly cy =
     (let dl = describe ly; dc = describe cy;
          md = d_mean dc - d_mean dl;
          t = ttest_ind S ly cy;
          u = mannwhitneyu S ly cy;
          f = f_oneway S ly cy;
          k = ks_2samp S ly cy;
          co = (if length ly = length cy then
                  (let p = pearsonr S ly cy in
                   Some \<lparr>corr_coef = fst p, corr_pval = snd p,
                         corr_significant = (snd p < 0.05),
                         corr_strength = corr_strength_label (fst p)\<rparr>)
                else None);
          ps = pooled_std ly cy
      in \<lparr>mean_diff = md,
          std_diff = d_std dc - d_std dl,
          min_diff = d_min dc - d_min dl,
          max_diff = d_max dc - d_max dl,
          q25_diff = d_q25 dc - d_q25 dl,
          q50_diff = d_q50 dc - d_q50 dl,
          q75_diff = d_q75 dc - d_q75 dl,
          t_stat = fst t, t_pval = snd t, t_significant = (snd t < 0.05),
          u_stat = fst u, u_pval = snd u, u_significant = (snd u < 0.05),
          anova_f_stat = fst f, anova_pval = snd f, anova_significant = (snd f < 0.05),
          ks_stat = fst k, ks_pval = snd k, ks_significant = (snd k < 0.05),
          correlation = co,
          cohens_d = (if ps \<noteq> 0 then Fin (md / ps) else NaN),
          effect_size = (if ps \<noteq> 0 then effect_size_label (md / ps) else ''none'')\<rparr>)"

text \<open>
  The guard of the loop: a column is evaluated when it is a column of the current-year
  frame and both series hold more than one distinct value; otherwise it gets no entry.
\<close>

definition compare_metric :: "scipy \<Rightarrow> agg \<Rightarrow> agg \<Rightarrow> string \<Rightarrow> inference option" where
  "compare_metric S lastf curf column =
     (if column \<in> set (agg_columns curf)
         \<and> nunique (series lastf column) > 1
         \<and> nunique (series curf column) > 1
      then Some (evaluate_metric S (series lastf column) (series curf column))
      else None)"




section \<open>Cells, floats and safe parsing (deviation\_engine.py)\<close>

text \<open>
  A cell of the input table holds \<open>None\<close>, a boolean, a float, an int or a string.
  Three conversions of the Python and pandas libraries are parameters of the model:
  \<open>float(s)\<close> on a string (not-a-number where it raises \<open>ValueError\<close>),
  \<open>pd.to_numeric(..., errors='coerce')\<close> on a string, and \<open>str(x)\<close> on a float.
  Characters are ASCII code points.
\<close>

datatype cell = CNone | CBool bool | CFloat fl | CInt int | CStr string

record pylib =
  py_float :: "string \<Rightarrow> fl"
  pd_numeric :: "string \<Rightarrow> fl"
  float_str :: "fl \<Rightarrow> string"

definition is_space :: "char \<Rightarrow> bool" where
  "is_space c = (let n = of_char c :: nat in (9 \<le> n \<and> n \<le> 13) \<or> (28 \<le> n \<and> n \<le> 32))"

definition strip :: "string \<Rightarrow> string" where
  "strip s = rev (dropWhile is_space (rev (dropWhile is_space s)))"

definition lower_char :: "char \<Rightarrow> char" where
  "lower_char c = (let n = of_char c :: nat in if 65 \<le> n \<and> n \<le> 90 then char_of (n + 32) else c)"

definition lower :: "string \<Rightarrow> string" where
  "lower s = map lower_char s"

definition to_float :: "pylib \<Rightarrow> cell \<Rightarrow> fl" where
  "to_float P x =
     (case x of
        CNone \<Rightarrow> NaN
      | CBool b \<Rightarrow> NaN
      | CFloat f \<Rightarrow> f
      | CInt i \<Rightarrow> Fin (of_int i)
      | CStr s \<Rightarrow> py_float P s)"

definition to_bool :: "cell \<Rightarrow> bool option" where
  "to_bool x =
     (case x of
        CNone \<Rightarrow> None
      | CFloat f \<Rightarrow> None
      | CBool b \<Rightarrow> Some b
      | CStr s0 \<Rightarrow>
          (let s = lower (strip s0) in
           if s \<in> set [''true'', ''t'', ''1'', ''yes'', ''y''] then Some True
           else if s \<in> set [''false'', ''f'', ''0'', ''no'', ''n''] then Some False
           else None)
      | CInt i \<Rightarrow> None)"

subsection \<open>Float arithmetic with not-a-number and infinities\<close>

fun fl_abs :: "fl \<Rightarrow> fl" where
  "fl_abs NaN = NaN"
| "fl_abs PInf = PInf"
| "fl_abs NInf = PInf"
| "fl_abs (Fin x) = Fin \<bar>x\<bar>"

fun fl_neg :: "fl \<Rightarrow> fl" where
  "fl_neg NaN = NaN"
| "fl_neg PInf = NInf"
| "fl_neg NInf = PInf"
| "fl_neg (Fin x) = Fin (- x)"

fun fl_lt :: "fl \<Rightarrow> fl \<Rightarrow> bool" where
  "fl_lt NaN _ = False"
| "fl_lt _ NaN = False"
| "fl_lt (Fin x) (Fin y) = (x < y)"
| "fl_lt (Fin x) PInf = True"
| "fl_lt NInf (Fin y) = True"
| "fl_lt NInf PInf = True"
| "fl_lt _ _ = False"

fun fl_le :: "fl \<Rightarrow> fl \<Rightarrow> bool" where
  "fl_le NaN _ = False"
| "fl_le _ NaN = False"
| "fl_le (Fin x) (Fin y) = (x \<le> y)"
| "fl_le _ PInf = True"
| "fl_le NInf _ = True"
| "fl_le _ _ = False"

definition fl_gt :: "fl \<Rightarrow> fl \<Rightarrow> bool" where
  "fl_gt a b = fl_lt b a"

definition fl_ge :: "fl \<Rightarrow> fl \<Rightarrow> bool" where
  "fl_ge a b = fl_le b a"

text \<open>Python's \<open>max(a, b)\<close> keeps \<open>a\<close> unless \<open>b > a\<close>.\<close>

definition fl_max :: "fl \<Rightarrow> fl \<Rightarrow> fl" where
  "fl_max a b = (if fl_gt b a then b else a)"

fun fl_add :: "fl \<Rightarrow> fl \<Rightarrow> fl" where
  "fl_add NaN _ = NaN"
| "fl_add _ NaN = NaN"
| "fl_add (Fin x) (Fin y) = Fin (x + y)"
| "fl_add PInf NInf = NaN"
| "fl_add NInf PInf = NaN"
| "fl_add PInf _ = PInf"
| "fl_add NInf _ = NInf"
| "fl_add _ PInf = PInf"
| "fl_add _ NInf = NInf"

definition fl_sub :: "fl \<Rightarrow> fl \<Rightarrow> fl" where
  "fl_sub a b = fl_add a (fl_neg b)"

text \<open>The sign of a float that is not not-a-number: \<open>-1\<close>, \<open>0\<close> or \<open>1\<close>.\<close>

fun fl_sign :: "fl \<Rightarrow> int" where
  "fl_sign NaN = 0"
| "fl_sign PInf = 1"
| "fl_sign NInf = - 1"
| "fl_sign (Fin x) = (if x < 0 then - 1 else if x = 0 then 0 else 1)"

definition fl_inf_of_sign :: "int \<Rightarrow> fl" where
  "fl_inf_of_sign s = (if s < 0 then NInf else if s = 0 then NaN else PInf)"

fun fl_mul :: "fl \<Rightarrow> fl \<Rightarrow> fl" where
  "fl_mul NaN _ = NaN"
| "fl_mul _ NaN = NaN"
| "fl_mul (Fin x) (Fin y) = Fin (x * y)"
| "fl_mul a b = fl_inf_of_sign (fl_sign a * fl_sign b)"

text \<open>
  Float division.  Python raises \<open>ZeroDivisionError\<close> for a zero divisor; every divisor
  in the engine is either \<open>max(|x|, 1e-9)\<close> or a value checked to exceed \<open>1e-12\<close> in
  absolute value, so that case (written as not-a-number here) does not arise.
\<close>

fun fl_div :: "fl \<Rightarrow> fl \<Rightarrow> fl" where
  "fl_div NaN _ = NaN"
| "fl_div _ NaN = NaN"
| "fl_div (Fin x) (Fin y) = (if y = 0 then NaN else Fin (x / y))"
| "fl_div (Fin x) _ = Fin 0"
| "fl_div a (Fin y) = fl_inf_of_sign (fl_sign a * fl_sign (Fin y))"
| "fl_div _ _ = NaN"

text \<open>\<open>int(x)\<close> on a finite float truncates towards zero.\<close>

definition py_int :: "real \<Rightarrow> int" where
  "py_int x = (if 0 \<le> x then \<lfloor>x\<rfloor> else \<lceil>x\<rceil>)"

definition eps9 :: real where
  "eps9 = 1 / 10 ^ 9"

definition eps12 :: real where
  "eps12 = 1 / 10 ^ 12"

section \<open>Metric detection and percentiles (deviation\_engine.py)\<close>

record dataframe =
  df_columns :: "string list"
  df_rows :: "(string \<Rightarrow> cell) list"

text \<open>\<open>r.get(col)\<close> on a row: the cell, or \<open>None\<close> for a column the table does not have.\<close>

definition get :: "string list \<Rightarrow> (string \<Rightarrow> cell) \<Rightarrow> string \<Rightarrow> cell" where
  "get cols r c = (if c \<in> set cols then r c else CNone)"

definition strip_suffix :: "string \<Rightarrow> string \<Rightarrow> string option" where
  "strip_suffix suf s =
     (if length suf \<le> length s \<and> drop (length s - length suf) s = suf
      then Some (take (length s - length suf) s) else None)"

text \<open>
  \<open>re.match(r"^(.*)_CY_Mean$", c)\<close>: the dot matches no newline, and \<open>$\<close> also
  matches just before one trailing newline.
\<close>

definition metric_of_column :: "string \<Rightarrow> string option" where
  "metric_of_column c =
     (let c' = (if c \<noteq> [] \<and> last c = CHR 0x0A then butlast c else c) in
      case strip_suffix ''_CY_Mean'' c' of
        None \<Rightarrow> None
      | Some p \<Rightarrow> if CHR 0x0A \<in> set p then None else Some p)"

fun index_of :: "'a \<Rightarrow> 'a list \<Rightarrow> nat" where
  "index_of x [] = 0"
| "index_of x (y # ys) = (if x = y then 0 else Suc (index_of x ys))"

definition pref :: "string list" where
  "pref = [''Credit'', ''Debit'', ''Running_Balance'', ''GST'']"

definition metric_key :: "string \<Rightarrow> nat \<times> string" where
  "metric_key x = (if x \<in> set pref then index_of x pref else 999, x)"

definition detect_metrics :: "string list \<Rightarrow> string list" where
  "detect_metrics cols = sort_key metric_key (remdups (List.map_filter metric_of_column cols))"

text \<open>
  \<open>pd.to_numeric(..., errors='coerce')\<close> on one cell, followed by \<open>.abs()\<close> and the
  replacement of the infinities by not-a-number: the result is a number or missing.
\<close>

definition to_numeric :: "pylib \<Rightarrow> cell \<Rightarrow> fl" where
  "to_numeric P x =
     (case x of
        CNone \<Rightarrow> NaN
      | CBool b \<Rightarrow> Fin (if b then 1 else 0)
      | CFloat f \<Rightarrow> f
      | CInt i \<Rightarrow> Fin (of_int i)
      | CStr s \<Rightarrow> pd_numeric P s)"

definition abs_finite :: "fl \<Rightarrow> real option" where
  "abs_finite f = (case fl_abs f of Fin x \<Rightarrow> Some x | _ \<Rightarrow> None)"

text \<open>
  \<open>rank(pct=True)\<close> with the default method: the average rank of the value among
  the non-null values, divided by their number.
\<close>

definition rank_pct :: "real list \<Rightarrow> real \<Rightarrow> real" where
  "rank_pct xs v =
     (real (length (filter (\<lambda>x. x < v) xs)) + (real (length (filter (\<lambda>x. x = v) xs)) + 1) / 2)
       / real (length xs)"

definition percentile_rank_abs :: "pylib \<Rightarrow> dataframe \<Rightarrow> string \<Rightarrow> string \<Rightarrow> real option list" where
  "percentile_rank_abs P df metric suffix =
     (let col = metric @ ''_'' @ suffix in
      if col \<notin> set (df_columns df) then map (\<lambda>r. None) (df_rows df)
      else
        (let vals = map (\<lambda>r. abs_finite (to_numeric P (r col))) (df_rows df);
             non_null = List.map_filter id vals
         in if non_null = [] then map (\<lambda>r. None) (df_rows df)
            else map (map_option (rank_pct non_null)) vals))"

section \<open>Configuration (deviation\_engine.py)\<close>

text \<open>
  The dataclasses of the configuration.  Float fields hold finite values, modelled as
  reals.  The weight fields carry the prefix \<open>w_\<close>, since several share their names
  with threshold fields.
\<close>

record Thresholds =
  high_cv :: real
  moderate_cv :: real
  mean_median_gap_ratio :: real
  pearson_skew_abs :: real
  rel_mean_shift :: real
  rel_std_jump :: real
  cohens_d_large :: real
  cohens_d_medium :: real
  sign_reversal_min_mean_pct :: real
  new_activity_factor :: real

record Weights =
  w_distribution_change :: int
  w_mean_shift :: int
  w_effect_large :: int
  w_effect_medium :: int
  w_high_cv :: int
  w_moderate_cv :: int
  w_mean_median_gap :: int
  w_pearson_skew :: int
  w_volatility_jump :: int
  w_low_mean_high_variance :: int
  w_new_activity :: int
  w_sign_reversal :: int

record MetricProfile =
  name :: string
  min_mean_pct_for_cv :: real
  min_mean_pct_for_effect :: real
  effect_weight_mult :: real
  cv_weight_mult :: real
  low_mean_pct :: real
  high_std_pct :: real

record Tiering =
  tier1_min_score :: int
  tier2_min_score :: int
  tier3_min_score :: int
  include_tier3 :: bool
  max_tier1 :: int
  tier1_materiality_pct :: real
  tier1_override_score :: int
  drop_pure_volatility_below_mean_pct :: real
  require_any_of_triggers :: "string list"

record Language =
  bucket_finish :: "(string \<times> string) list"

record DeviationConfig =
  thresholds :: Thresholds
  weights :: Weights
  tiers :: Tiering
  profiles :: "(string \<times> MetricProfile) list"
  language :: Language
  enabled_checks :: "(string \<times> bool) list"

definition default_thresholds :: Thresholds where
  "default_thresholds =
     \<lparr>high_cv = 1, moderate_cv = 0.7, mean_median_gap_ratio = 0.38, pearson_skew_abs = 1.2,
      rel_mean_shift = 0.75, rel_std_jump = 0.8, cohens_d_large = 0.8, cohens_d_medium = 0.5,
      sign_reversal_min_mean_pct = 0.6, new_activity_factor = 10\<rparr>"

definition default_weights :: Weights where
  "default_weights =
     \<lparr>w_distribution_change = 5, w_mean_shift = 5, w_effect_large = 4, w_effect_medium = 2,
      w_high_cv = 2, w_moderate_cv = 1, w_mean_median_gap = 2, w_pearson_skew = 1,
      w_volatility_jump = 2, w_low_mean_high_variance = 2, w_new_activity = 2,
      w_sign_reversal = 3\<rparr>"

text \<open>\<open>MetricProfile(name)\<close> with the defaults of the dataclass.\<close>

definition default_profile :: "string \<Rightarrow> MetricProfile" where
  "default_profile n =
     \<lparr>name = n, min_mean_pct_for_cv = 0.6, min_mean_pct_for_effect = 0.3,
      effect_weight_mult = 1, cv_weight_mult = 1, low_mean_pct = 0.3, high_std_pct = 0.7\<rparr>"

definition default_profiles :: "(string \<times> MetricProfile) list" where
  "default_profiles =
     [(''Credit'', (default_profile ''Credit'')
         \<lparr>min_mean_pct_for_cv := 0.6, min_mean_pct_for_effect := 0.6\<rparr>),
      (''Debit'', (default_profile ''Debit'')
         \<lparr>min_mean_pct_for_cv := 0.3, min_mean_pct_for_effect := 0.3\<rparr>),
      (''Running_Balance'', (default_profile ''Running_Balance'')
         \<lparr>min_mean_pct_for_cv := 0.75, min_mean_pct_for_effect := 0.78,
          effect_weight_mult := 0.7, cv_weight_mult := 0.8\<rparr>),
      (''GST'', (default_profile ''GST'')
         \<lparr>min_mean_pct_for_cv := 0.4, min_mean_pct_for_effect := 0.45,
          effect_weight_mult := 0.9, cv_weight_mult := 0.9\<rparr>)]"

definition default_tiering :: Tiering where
  "default_tiering =
     \<lparr>tier1_min_score = 14, tier2_min_score = 7, tier3_min_score = 5, include_tier3 = False,
      max_tier1 = 10, tier1_materiality_pct = 0.75, tier1_override_score = 28,
      drop_pure_volatility_below_mean_pct = 0.8,
      require_any_of_triggers =
        [''Distribution Change'', ''Mean Shift'', ''Large Effect Size'',
         ''Low Mean with High Variance'', ''New Activity / Re-start'', ''Sign Reversal'',
         ''High CV'', ''Mean-Median Gap'']\<rparr>"

definition default_language :: Language where
  "default_language =
     \<lparr>bucket_finish =
        [(''revenue'', ''Check cut-off, pricing/mix changes, and recognition timing.''),
         (''cash'', ''Often driven by batch journals, timing, bank rule changes, or missed automation.''),
         (''timing'', ''Common causes are accruals vs prepaids, one-offs, or timing corrections.''),
         (''clearing'', ''Usually points to reconciliation gaps, clearing discipline, or mis-postings into control accounts.''),
         (''tax'', ''Validate coding, rate mapping, and whether supply classification changed.''),
         (''rounding'', ''Unexpected activity can mask systemic posting issues or forced balancing journals.''),
         (''general'', ''Often a mix of reclasses, one-offs, or process changes.'')]\<rparr>"

definition default_enabled_checks :: "(string \<times> bool) list" where
  "default_enabled_checks =
     [(''distribution_change'', True), (''mean_shift'', True), (''effect_size'', True),
      (''cv'', True), (''mean_median_gap'', True), (''pearson_skew'', True),
      (''volatility_jump'', True), (''low_mean_high_variance'', True),
      (''new_activity'', True), (''sign_reversal'', True)]"

definition default_config :: DeviationConfig where
  "default_config =
     \<lparr>thresholds = default_thresholds, weights = default_weights, tiers = default_tiering,
      profiles = default_profiles, language = default_language,
      enabled_checks = default_enabled_checks\<rparr>"

section \<open>Per-metric scoring (deviation\_engine.py, build\_deviation\_report)\<close>

text \<open>
  The values the loop body reads from one row for one metric.  The fields
  \<open>mean_diff_v\<close>, \<open>std_diff_v\<close> and \<open>cohens_d_v\<close> are the locals \<open>mean_diff\<close>,
  \<open>std_diff\<close> and \<open>cohens_d\<close> of the source.
\<close>

record mvals =
  ly_mean :: fl
  cy_mean :: fl
  ly_std :: fl
  cy_std :: fl
  cy_med :: fl
  mean_diff_v :: fl
  std_diff_v :: fl
  t_sig :: "bool option"
  mw_sig :: "bool option"
  ks_sig :: "bool option"
  anova_sig :: "bool option"
  eff :: string
  cohens_d_v :: fl

definition py_str :: "pylib \<Rightarrow> cell \<Rightarrow> string" where
  "py_str P x =
     (case x of
        CNone \<Rightarrow> ''None''
      | CBool b \<Rightarrow> (if b then ''True'' else ''False'')
      | CFloat f \<Rightarrow> float_str P f
      | CInt i \<Rightarrow> str_int i
      | CStr s \<Rightarrow> s)"

definition eff_of :: "pylib \<Rightarrow> cell \<Rightarrow> string" where
  "eff_of P eff_raw =
     (if eff_raw \<noteq> CNone \<and> \<not> (case eff_raw of CFloat f \<Rightarrow> isnan f | _ \<Rightarrow> False)
      then lower (strip (py_str P eff_raw)) else [])"

definition extract_vals :: "pylib \<Rightarrow> string list \<Rightarrow> (string \<Rightarrow> cell) \<Rightarrow> string \<Rightarrow> mvals" where
  "extract_vals P cols r m =
     \<lparr>ly_mean = to_float P (get cols r (m @ ''_LY_Mean'')),
      cy_mean = to_float P (get cols r (m @ ''_CY_Mean'')),
      ly_std = to_float P (get cols r (m @ ''_LY_Std'')),
      cy_std = to_float P (get cols r (m @ ''_CY_Std'')),
      cy_med = to_float P (get cols r (m @ ''_CY_Median'')),
      mean_diff_v = to_float P (get cols r (m @ ''_Mean_Diff'')),
      std_diff_v = to_float P (get cols r (m @ ''_Std_Diff'')),
      t_sig = to_bool (get cols r (m @ ''_TTest_Significant'')),
      mw_sig = to_bool (get cols r (m @ ''_MannWhitney_Significant'')),
      ks_sig = to_bool (get cols r (m @ ''_KS_Significant'')),
      anova_sig = to_bool (get cols r (m @ ''_ANOVA_Significant'')),
      eff = eff_of P (get cols r (m @ ''_Effect_Size'')),
      cohens_d_v = to_float P (get cols r (m @ ''_Cohens_D''))\<rparr>"

text \<open>\<open>pct_ok\<close>: the percentile is a number and reaches the threshold.\<close>

definition pct_ok :: "real option \<Rightarrow> real \<Rightarrow> bool" where
  "pct_ok p threshold = (case p of None \<Rightarrow> False | Some x \<Rightarrow> x \<ge> threshold)"

definition cv_of :: "mvals \<Rightarrow> fl" where
  "cv_of v =
     (if \<not> (isnan (cy_std v) \<or> isnan (cy_mean v))
      then fl_div (fl_abs (cy_std v)) (fl_max (fl_abs (cy_mean v)) (Fin eps9))
      else NaN)"

definition gap_ratio_of :: "mvals \<Rightarrow> fl" where
  "gap_ratio_of v =
     (if \<not> (isnan (cy_mean v) \<or> isnan (cy_med v))
      then fl_div (fl_abs (fl_sub (cy_mean v) (cy_med v))) (fl_max (fl_abs (cy_mean v)) (Fin eps9))
      else NaN)"

definition pearson_skew_of :: "mvals \<Rightarrow> fl" where
  "pearson_skew_of v =
     (if \<not> (isnan (cy_mean v) \<or> isnan (cy_med v) \<or> isnan (cy_std v))
         \<and> fl_gt (fl_abs (cy_std v)) (Fin eps12)
      then fl_abs (fl_div (fl_mul (Fin 3) (fl_sub (cy_mean v) (cy_med v))) (cy_std v))
      else NaN)"

definition dist_change :: "mvals \<Rightarrow> bool" where
  "dist_change v = (ks_sig v = Some True \<or> mw_sig v = Some True)"

definition mean_change :: "mvals \<Rightarrow> bool" where
  "mean_change v = (t_sig v = Some True \<or> anova_sig v = Some True)"

definition eff_large :: "DeviationConfig \<Rightarrow> mvals \<Rightarrow> bool" where
  "eff_large cfg v =
     (eff v = ''large''
      \<or> (\<not> isnan (cohens_d_v v)
          \<and> fl_ge (fl_abs (cohens_d_v v)) (Fin (cohens_d_large (thresholds cfg)))))"

definition eff_med :: "DeviationConfig \<Rightarrow> mvals \<Rightarrow> bool" where
  "eff_med cfg v =
     (eff v = ''medium''
      \<or> (\<not> isnan (cohens_d_v v)
          \<and> fl_ge (fl_abs (cohens_d_v v)) (Fin (cohens_d_medium (thresholds cfg)))))"

text \<open>
  \<open>cfg.enabled_checks[k]\<close>.  A missing key raises \<open>KeyError\<close>; the row loop checks
  \<open>checks_present\<close> first, since every iteration reads all ten keys.
\<close>

definition check_keys :: "string list" where
  "check_keys =
     [''distribution_change'', ''mean_shift'', ''effect_size'', ''cv'', ''low_mean_high_variance'',
      ''mean_median_gap'', ''pearson_skew'', ''volatility_jump'', ''new_activity'',
      ''sign_reversal'']"

definition checks_present :: "DeviationConfig \<Rightarrow> bool" where
  "checks_present cfg = list_all (\<lambda>k. map_of (enabled_checks cfg) k \<noteq> None) check_keys"

definition en :: "DeviationConfig \<Rightarrow> string \<Rightarrow> bool" where
  "en cfg k = (case map_of (enabled_checks cfg) k of Some b \<Rightarrow> b | None \<Rightarrow> False)"

text \<open>
  Each check yields the trigger it appends and the points it adds, or nothing.  The
  checks run in the order of the source.
\<close>

type_synonym fired = "(string \<times> int) list"

definition check_distribution_change :: "DeviationConfig \<Rightarrow> mvals \<Rightarrow> bool \<Rightarrow> fired" where
  "check_distribution_change cfg v eff_mat =
     (if en cfg ''distribution_change'' \<and> dist_change v then
        (if eff_mat \<or> mean_change v \<or> eff_large cfg v
         then [(''Distribution Change'', w_distribution_change (weights cfg))]
         else [(''Distribution Change'',
                py_int (real_of_int (w_distribution_change (weights cfg)) * 0.4))])
      else [])"

definition check_mean_shift :: "DeviationConfig \<Rightarrow> mvals \<Rightarrow> bool \<Rightarrow> fired" where
  "check_mean_shift cfg v eff_mat =
     (if en cfg ''mean_shift'' \<and> mean_change v then
        (if eff_mat \<or> eff_large cfg v
         then [(''Mean Shift'', w_mean_shift (weights cfg))]
         else [(''Mean Shift'', py_int (real_of_int (w_mean_shift (weights cfg)) * 0.5))])
      else if en cfg ''mean_shift'' then
        (if \<not> (isnan (mean_diff_v v) \<or> isnan (ly_mean v) \<or> isnan (cy_mean v)) then
           (let rel = fl_div (fl_abs (mean_diff_v v)) (fl_max (fl_abs (ly_mean v)) (Fin eps9)) in
            if fl_ge rel (Fin (rel_mean_shift (thresholds cfg))) \<and> eff_mat
            then [(''Mean Shift'', py_int (real_of_int (w_mean_shift (weights cfg)) * 0.5))]
            else [])
         else [])
      else [])"

definition big_move :: "DeviationConfig \<Rightarrow> mvals \<Rightarrow> bool" where
  "big_move cfg v =
     (if \<not> (isnan (mean_diff_v v) \<or> isnan (ly_mean v))
      then fl_gt (fl_abs (mean_diff_v v))
             (fl_mul (fl_max (fl_abs (ly_mean v)) (Fin eps9)) (Fin (rel_mean_shift (thresholds cfg))))
      else False)"

definition check_effect_size :: "DeviationConfig \<Rightarrow> MetricProfile \<Rightarrow> mvals \<Rightarrow> bool \<Rightarrow> fired" where
  "check_effect_size cfg p v eff_mat =
     (if en cfg ''effect_size'' then
        (if eff_large cfg v \<and> (dist_change v \<or> mean_change v \<or> big_move cfg v) \<and> eff_mat
         then [(''Large Effect Size'',
                py_int (real_of_int (w_effect_large (weights cfg)) * effect_weight_mult p))]
         else if eff_med cfg v \<and> (dist_change v \<or> mean_change v) \<and> eff_mat
         then [(''Medium Effect Size'',
                py_int (real_of_int (w_effect_medium (weights cfg)) * effect_weight_mult p))]
         else [])
      else [])"

definition check_cv :: "DeviationConfig \<Rightarrow> MetricProfile \<Rightarrow> mvals \<Rightarrow> bool \<Rightarrow> fired" where
  "check_cv cfg p v mean_mat =
     (if en cfg ''cv'' \<and> \<not> isnan (cv_of v) then
        (if fl_ge (cv_of v) (Fin (high_cv (thresholds cfg))) \<and> mean_mat
         then [(''High CV'', py_int (real_of_int (w_high_cv (weights cfg)) * cv_weight_mult p))]
         else if fl_ge (cv_of v) (Fin (moderate_cv (thresholds cfg))) \<and> mean_mat
         then [(''Moderate CV'', py_int (real_of_int (w_moderate_cv (weights cfg)) * cv_weight_mult p))]
         else [])
      else [])"

definition check_low_mean_high_variance ::
  "DeviationConfig \<Rightarrow> MetricProfile \<Rightarrow> mvals \<Rightarrow> real option \<Rightarrow> real option \<Rightarrow> fired" where
  "check_low_mean_high_variance cfg p v mp sp =
     (if en cfg ''low_mean_high_variance'' \<and> \<not> isnan (cv_of v) then
        (if (case mp of None \<Rightarrow> False | Some x \<Rightarrow> x \<le> low_mean_pct p)
            \<and> pct_ok sp (high_std_pct p)
            \<and> fl_ge (cv_of v) (Fin (high_cv (thresholds cfg)))
         then [(''Low Mean with High Variance'', w_low_mean_high_variance (weights cfg))]
         else [])
      else [])"

definition check_mean_median_gap :: "DeviationConfig \<Rightarrow> mvals \<Rightarrow> bool \<Rightarrow> fired" where
  "check_mean_median_gap cfg v mean_mat =
     (if en cfg ''mean_median_gap'' \<and> \<not> isnan (gap_ratio_of v) then
        (if fl_ge (gap_ratio_of v) (Fin (mean_median_gap_ratio (thresholds cfg))) \<and> mean_mat
         then [(''Mean-Median Gap'', w_mean_median_gap (weights cfg))]
         else [])
      else [])"

definition check_pearson_skew :: "DeviationConfig \<Rightarrow> mvals \<Rightarrow> bool \<Rightarrow> fired" where
  "check_pearson_skew cfg v mean_mat =
     (if en cfg ''pearson_skew'' \<and> \<not> isnan (pearson_skew_of v) then
        (if fl_ge (pearson_skew_of v) (Fin (pearson_skew_abs (thresholds cfg))) \<and> mean_mat
         then [(''Pearson Skew'', w_pearson_skew (weights cfg))]
         else [])
      else [])"

definition check_volatility_jump :: "DeviationConfig \<Rightarrow> MetricProfile \<Rightarrow> mvals \<Rightarrow> bool \<Rightarrow> fired" where
  "check_volatility_jump cfg p v mean_mat =
     (if en cfg ''volatility_jump'' \<and> \<not> (isnan (std_diff_v v) \<or> isnan (ly_std v)) then
        (let rel_std = fl_div (fl_abs (std_diff_v v)) (fl_max (fl_abs (ly_std v)) (Fin eps9)) in
         if fl_ge rel_std (Fin (rel_std_jump (thresholds cfg))) \<and> mean_mat
         then [(''Volatility Jump'',
                py_int (real_of_int (w_volatility_jump (weights cfg)) * cv_weight_mult p))]
         else [])
      else [])"

definition check_new_activity :: "DeviationConfig \<Rightarrow> mvals \<Rightarrow> bool \<Rightarrow> fired" where
  "check_new_activity cfg v eff_mat =
     (if en cfg ''new_activity'' \<and> \<not> (isnan (ly_mean v) \<or> isnan (cy_mean v)) then
        (if fl_lt (fl_abs (ly_mean v)) (Fin eps9) \<and> eff_mat
            \<and> fl_gt (fl_abs (cy_mean v)) (Fin (new_activity_factor (thresholds cfg) * eps9))
         then [(''New Activity / Re-start'', w_new_activity (weights cfg))]
         else [])
      else [])"

definition check_sign_reversal :: "DeviationConfig \<Rightarrow> mvals \<Rightarrow> real option \<Rightarrow> fired" where
  "check_sign_reversal cfg v mp =
     (if en cfg ''sign_reversal'' \<and> \<not> (isnan (ly_mean v) \<or> isnan (cy_mean v)) then
        (if fl_lt (fl_mul (ly_mean v) (cy_mean v)) (Fin 0)
            \<and> pct_ok mp (sign_reversal_min_mean_pct (thresholds cfg))
         then [(''Sign Reversal'', w_sign_reversal (weights cfg))]
         else [])
      else [])"

text \<open>
  The body of the loop over the metrics: \<open>mp\<close> and \<open>sp\<close> are the percentile ranks of
  the row's absolute current-year mean and standard deviation for the metric.
\<close>

definition score_metric ::
  "DeviationConfig \<Rightarrow> MetricProfile \<Rightarrow> mvals \<Rightarrow> real option \<Rightarrow> real option \<Rightarrow> fired" where
  "score_metric cfg p v mp sp =
     (let mean_mat = pct_ok mp (min_mean_pct_for_cv p);
          eff_mat = pct_ok mp (min_mean_pct_for_effect p)
      in check_distribution_change cfg v eff_mat
         @ check_mean_shift cfg v eff_mat
         @ check_effect_size cfg p v eff_mat
         @ check_cv cfg p v mean_mat
         @ check_low_mean_high_variance cfg p v mp sp
         @ check_mean_median_gap cfg v mean_mat
         @ check_pearson_skew cfg v mean_mat
         @ check_volatility_jump cfg p v mean_mat
         @ check_new_activity cfg v eff_mat
         @ check_sign_reversal cfg v mp)"

definition trig_of :: "fired \<Rightarrow> string list" where
  "trig_of f = map fst f"

definition score_of :: "fired \<Rightarrow> int" where
  "score_of f = sum_list (map snd f)"

text \<open>\<open>list(dict.fromkeys(xs))\<close>: the first occurrence of every element, in order.\<close>

fun dedup :: "'a list \<Rightarrow> 'a list" where
  "dedup [] = []"
| "dedup (x # xs) = x # dedup (filter (\<lambda>y. y \<noteq> x) xs)"

text \<open>\<open>cfg.profiles.get(m, MetricProfile(m))\<close>.\<close>

definition prof :: "DeviationConfig \<Rightarrow> string \<Rightarrow> MetricProfile" where
  "prof cfg m = (case map_of (profiles cfg) m of Some p \<Rightarrow> p | None \<Rightarrow> default_profile m)"

section \<open>Interpretation (deviation\_engine.py)\<close>

fun starts_with :: "string \<Rightarrow> string \<Rightarrow> bool" where
  "starts_with [] s = True"
| "starts_with (k # ks) [] = False"
| "starts_with (k # ks) (c # cs) = (k = c \<and> starts_with ks cs)"

text \<open>\<open>k in n\<close> for strings: \<open>k\<close> occurs in \<open>n\<close> as a contiguous block.\<close>

fun contains :: "string \<Rightarrow> string \<Rightarrow> bool" where
  "contains [] k = (k = [])"
| "contains (c # cs) k = (starts_with k (c # cs) \<or> contains cs k)"

definition bucketize :: "string \<Rightarrow> string" where
  "bucketize account_name =
     (let n = lower account_name in
      if list_ex (contains n) [''sales'', ''revenue'', ''income''] then ''revenue''
      else if list_ex (contains n) [''bank'', ''merchant'', ''eftpos'', ''stripe'', ''fees'', ''interest'']
        then ''cash''
      else if list_ex (contains n)
                [''insurance'', ''subscription'', ''subscriptions'', ''prepaid'', ''licence'',
                 ''license'', ''annual'']
        then ''timing''
      else if list_ex (contains n)
                [''payable'', ''receivable'', ''deposit'', ''clearing'', ''suspense'', ''control'',
                 ''intercompany'', ''loan'', ''hire purchase'', ''hp'']
        then ''clearing''
      else if list_ex (contains n) [''gst'', ''vat'', ''tax'', ''rwt''] then ''tax''
      else if list_ex (contains n) [''rounding'', ''round off'', ''round-off''] then ''rounding''
      else ''general'')"

text \<open>\<open>sep.join(xs)\<close>.\<close>

fun join :: "string \<Rightarrow> string list \<Rightarrow> string" where
  "join sep [] = []"
| "join sep [x] = x"
| "join sep (x # y # ys) = x @ sep @ join sep (y # ys)"

definition subject_of :: "string \<Rightarrow> string" where
  "subject_of dominant_metric =
     (case map_of [(''Credit'', ''Credit postings''), (''Debit'', ''Debit postings''),
                   (''Running_Balance'', ''Balance movements''), (''GST'', ''GST behaviour'')]
             dominant_metric of
        Some s \<Rightarrow> s
      | None \<Rightarrow> dominant_metric @ '' behaviour'')"

definition bits_of :: "string list \<Rightarrow> string list" where
  "bits_of triggers =
     map snd (filter (\<lambda>tb. fst tb \<in> set triggers)
       [(''Distribution Change'', ''posting pattern changed versus last year''),
        (''Mean Shift'', ''average level moved materially''),
        (''Large Effect Size'', ''change looks practically large, not just noise''),
        (''High CV'', ''volatility is lumpy and irregular''),
        (''Low Mean with High Variance'',
         ''small average with outsized variability suggests batching or timing noise''),
        (''Mean-Median Gap'', ''skew suggests outliers or one-offs''),
        (''Pearson Skew'', ''outliers likely dominate the movement''),
        (''New Activity / Re-start'', ''activity appears newly introduced or restarted''),
        (''Sign Reversal'', ''direction flipped (possible reclass/contra entries)'')])"

text \<open>
  \<open>lang.bucket_finish.get(bucket, lang.bucket_finish['general'])\<close> evaluates its default
  first: without a \<open>general\<close> entry the call raises \<open>KeyError\<close>.
\<close>

definition interpret_account :: "string \<Rightarrow> string \<Rightarrow> string list \<Rightarrow> Language \<Rightarrow> error + string" where
  "interpret_account account_name dominant_metric triggers lang =
     (let bucket = bucketize account_name;
          subject = subject_of dominant_metric;
          bits = bits_of triggers;
          middle = (if bits \<noteq> [] then join ''; '' bits
                    else ''shows unusual movement versus last year'')
      in case map_of (bucket_finish lang) ''general'' of
           None \<Rightarrow> Inl KeyError
         | Some g \<Rightarrow>
             Inr (subject @ '': '' @ middle @ ''. ''
                  @ (case map_of (bucket_finish lang) bucket of Some f \<Rightarrow> f | None \<Rightarrow> g)))"

section \<open>Per-account scoring and tiering (deviation\_engine.py, build\_deviation\_report)\<close>

text \<open>
  A row of the report.  The column \<open>Metric Values\<close>, a rendering of the numbers as
  text, is not part of the model.
\<close>

record out_row =
  Tier :: string
  Account_Code :: cell
  Account_Name :: cell
  Key_Metrics_Triggered :: string
  Accounting_Interpretation :: string
  Score :: int
  Dominant_Metric :: string

definition vol_set :: "string list" where
  "vol_set = [''High CV'', ''Moderate CV'', ''Mean-Median Gap'', ''Volatility Jump'', ''Pearson Skew'']"

definition priority :: "string list" where
  "priority =
     [''Distribution Change'', ''Mean Shift'', ''Large Effect Size'', ''Low Mean with High Variance'',
      ''High CV'', ''Mean-Median Gap'', ''Pearson Skew'', ''Volatility Jump'', ''Sign Reversal'',
      ''New Activity / Re-start'', ''Medium Effect Size'', ''Moderate CV'']"

definition order_triggers :: "string list \<Rightarrow> string list" where
  "order_triggers uniq_triggers =
     (let ordered = dedup (filter (\<lambda>p. p \<in> set uniq_triggers) priority)
      in ordered @ dedup (filter (\<lambda>t. t \<notin> set ordered) uniq_triggers))"

text \<open>\<open>max(items, key=...)\<close> returns the first item with the largest key.\<close>

fun first_max :: "(string \<times> int) \<Rightarrow> (string \<times> int) list \<Rightarrow> string \<times> int" where
  "first_max best [] = best"
| "first_max best (x # xs) = first_max (if snd x > snd best then x else best) xs"

text \<open>
  The tier of an account with total score \<open>tot\<close> whose best mean percentile is
  \<open>max_mean_pct\<close>; \<open>None\<close> where the loop continues without a row.
\<close>

definition tier_of :: "Tiering \<Rightarrow> int \<Rightarrow> real option \<Rightarrow> string option" where
  "tier_of t tot max_mean_pct =
     (if tot \<ge> tier1_min_score t
         \<and> ((case max_mean_pct of None \<Rightarrow> False | Some x \<Rightarrow> x \<ge> tier1_materiality_pct t)
             \<or> tot \<ge> tier1_override_score t)
      then Some ''Tier-1''
      else if tot \<ge> tier2_min_score t then Some ''Tier-2''
      else if tot \<ge> tier3_min_score t \<and> include_tier3 t then Some ''Tier-3''
      else None)"

text \<open>
  The metrics of a row that scored: the metric, its score and its triggers, in the order
  of the metrics (\<open>metric_scores\<close> and \<open>metric_triggers\<close> of the source).
\<close>

definition scored_metrics ::
  "pylib \<Rightarrow> DeviationConfig \<Rightarrow> string list \<Rightarrow> string list \<Rightarrow> (string \<Rightarrow> real option)
     \<Rightarrow> (string \<Rightarrow> real option) \<Rightarrow> (string \<Rightarrow> cell) \<Rightarrow> (string \<times> int \<times> string list) list" where
  "scored_metrics P cfg cols metrics mean_pct std_pct r =
     List.map_filter
       (\<lambda>m. let f = score_metric cfg (prof cfg m) (extract_vals P cols r m) (mean_pct m) (std_pct m)
             in if score_of f > 0 then Some (m, score_of f, dedup (trig_of f)) else None)
       metrics"

definition total_score :: "(string \<times> int \<times> string list) list \<Rightarrow> int" where
  "total_score ms =
     sum_list (map (\<lambda>x. fst (snd x)) ms)
       + (if length ms \<ge> 2 then 2 else 0) + (if length ms \<ge> 3 then 2 else 0)"

definition max_mean_pct_of ::
  "(string \<Rightarrow> real option) \<Rightarrow> (string \<times> int \<times> string list) list \<Rightarrow> real option" where
  "max_mean_pct_of mean_pct ms =
     (let ps = List.map_filter (\<lambda>x. mean_pct (fst x)) ms
      in if ps = [] then None else Some (Max (set ps)))"

text \<open>
  One iteration of the loop over the rows: \<open>Inr None\<close> where the loop continues without
  appending, \<open>Inr (Some row)\<close> where it appends, \<open>Inl KeyError\<close> where a dictionary
  lookup fails.  \<open>mean_pct m\<close> and \<open>std_pct m\<close> are the percentile ranks of this row.
\<close>

definition score_row ::
  "pylib \<Rightarrow> DeviationConfig \<Rightarrow> string list \<Rightarrow> string list \<Rightarrow> (string \<Rightarrow> real option)
     \<Rightarrow> (string \<Rightarrow> real option) \<Rightarrow> (string \<Rightarrow> cell) \<Rightarrow> error + out_row option" where
  "score_row P cfg cols metrics mean_pct std_pct r =
     (if \<not> checks_present cfg then Inl KeyError
      else
        (let ms = scored_metrics P cfg cols metrics mean_pct std_pct r in
         if ms = [] then Inr None
         else
           (let tot = total_score ms;
                uniq_triggers = dedup (concat (map (\<lambda>x. snd (snd x)) ms));
                max_mean_pct = max_mean_pct_of mean_pct ms
            in if uniq_triggers \<noteq> [] \<and> list_all (\<lambda>t. t \<in> set vol_set) uniq_triggers
                  \<and> (case max_mean_pct of
                        None \<Rightarrow> True
                      | Some x \<Rightarrow> x < drop_pure_volatility_below_mean_pct (tiers cfg))
               then Inr None
               else if require_any_of_triggers (tiers cfg) \<noteq> []
                       \<and> \<not> list_ex (\<lambda>t. t \<in> set uniq_triggers) (require_any_of_triggers (tiers cfg))
               then Inr None
               else
                 (let dominant_metric =
                        fst (first_max (fst (hd ms), fst (snd (hd ms)))
                               (map (\<lambda>x. (fst x, fst (snd x))) (tl ms)))
                  in case tier_of (tiers cfg) tot max_mean_pct of
                       None \<Rightarrow> Inr None
                     | Some tier \<Rightarrow>
                         (let ordered = order_triggers uniq_triggers in
                          case interpret_account (py_str P (get cols r ''Account Name'')) dominant_metric
                                 ordered (language cfg) of
                            Inl e \<Rightarrow> Inl e
                          | Inr sentence \<Rightarrow>
                              Inr (Some \<lparr>Tier = tier,
                                         Account_Code = get cols r ''Account Code'',
                                         Account_Name = get cols r ''Account Name'',
                                         Key_Metrics_Triggered = join '', '' (take 6 ordered),
                                         Accounting_Interpretation = sentence,
                                         Score = tot,
                                         Dominant_Metric = dominant_metric\<rparr>))))))"

text \<open>The loop over the rows: the rows appended, in order, or the first error.\<close>

fun collect :: "(error + 'a option) list \<Rightarrow> error + 'a list" where
  "collect [] = Inr []"
| "collect (x # xs) =
     (case x of
        Inl e \<Rightarrow> Inl e
      | Inr o1 \<Rightarrow>
          (case collect xs of
             Inl e \<Rightarrow> Inl e
           | Inr ys \<Rightarrow> Inr (case o1 of None \<Rightarrow> ys | Some y \<Rightarrow> y # ys)))"

definition pct_at :: "real option list \<Rightarrow> nat \<Rightarrow> real option" where
  "pct_at ps i = (if i < length ps then ps ! i else None)"

definition score_row_at :: "pylib \<Rightarrow> DeviationConfig \<Rightarrow> dataframe \<Rightarrow> nat \<Rightarrow> error + out_row option" where
  "score_row_at P cfg df i =
     score_row P cfg (df_columns df) (detect_metrics (df_columns df))
       (\<lambda>m. pct_at (percentile_rank_abs P df m ''CY_Mean'') i)
       (\<lambda>m. pct_at (percentile_rank_abs P df m ''CY_Std'') i)
       (df_rows df ! i)"

definition score_rows :: "pylib \<Rightarrow> DeviationConfig \<Rightarrow> dataframe \<Rightarrow> error + out_row list" where
  "score_rows P cfg df = collect (map (score_row_at P cfg df) [0 ..< length (df_rows df)])"

section \<open>Ordering and the Tier-1 cap (deviation\_engine.py, build\_deviation\_report)\<close>

text \<open>
  The report frame: every row with its index label, the position at which it was
  appended.  Sorting moves rows together with their labels.
\<close>

type_synonym frame = "(nat \<times> out_row) list"

definition tier_rank :: "string \<Rightarrow> int" where
  "tier_rank t =
     (case map_of [(''Tier-1'', 1), (''Tier-2'', 2), (''Tier-3'', 3)] t of
        Some k \<Rightarrow> k | None \<Rightarrow> 9)"

text \<open>
  \<open>sort_values(["_tr", "Score"], ascending=[True, False])\<close>: a stable sort on the tier
  rank, then on the score from high to low.
\<close>

definition sort_report :: "frame \<Rightarrow> frame" where
  "sort_report out = sort_key (\<lambda>x. (tier_rank (Tier (snd x)), - Score (snd x))) out"

text \<open>\<open>xs[k:]\<close> for a Python int \<open>k\<close>: a negative start counts from the end.\<close>

definition slice_from :: "int \<Rightarrow> 'a list \<Rightarrow> 'a list" where
  "slice_from k xs =
     (if k < 0 then drop (nat (max (int (length xs) + k) 0)) xs else drop (nat k) xs)"

definition count_tier1 :: "frame \<Rightarrow> nat" where
  "count_tier1 out = length (filter (\<lambda>x. Tier (snd x) = ''Tier-1'') out)"

definition t1_idxs :: "frame \<Rightarrow> nat list" where
  "t1_idxs out = map fst (filter (\<lambda>x. Tier (snd x) = ''Tier-1'') out)"

text \<open>\<open>out.loc[demote, "Tier"] = "Tier-2"\<close>.\<close>

definition set_tier2 :: "nat list \<Rightarrow> frame \<Rightarrow> frame" where
  "set_tier2 demote out =
     map (\<lambda>x. if fst x \<in> set demote then (fst x, (snd x)\<lparr>Tier := ''Tier-2''\<rparr>) else x) out"

definition apply_cap :: "Tiering \<Rightarrow> frame \<Rightarrow> frame" where
  "apply_cap t out =
     (if max_tier1 t \<noteq> 0 \<and> int (count_tier1 out) > max_tier1 t then
        (let demote = slice_from (max_tier1 t) (t1_idxs out)
         in sort_report (set_tier2 demote out))
      else out)"

definition finish_report :: "Tiering \<Rightarrow> out_row list \<Rightarrow> out_row list" where
  "finish_report t rs =
     (if rs = [] then []
      else map snd (apply_cap t (sort_report (zip [0 ..< length rs] rs))))"

definition cfg_or_default :: "DeviationConfig option \<Rightarrow> DeviationConfig" where
  "cfg_or_default c = (case c of None \<Rightarrow> default_config | Some cfg \<Rightarrow> cfg)"

definition build_deviation_report ::
  "pylib \<Rightarrow> dataframe \<Rightarrow> DeviationConfig option \<Rightarrow> error + out_row list" where
  "build_deviation_report P results_df c =
     (let cfg = cfg_or_default c; df = results_df in
      if ''Account Code'' \<notin> set (df_columns df) \<or> ''Account Name'' \<notin> set (df_columns df)
      then Inl ValueError
      else if detect_metrics (df_columns df) = [] then Inl ValueError
      else
        (case score_rows P cfg df of
           Inl e \<Rightarrow> Inl e
         | Inr rs \<Rightarrow> Inr (finish_report (tiers cfg) rs)))"

section \<open>Notions used in the statements\<close>

text \<open>A cell that holds a plain number: an int or a float.\<close>

definition is_numeric_cell :: "cell \<Rightarrow> bool" where
  "is_numeric_cell x = (case x of CInt i \<Rightarrow> True | CFloat f \<Rightarrow> True | _ \<Rightarrow> False)"



definition tier1_count :: "out_row list \<Rightarrow> nat" where
  "tier1_count rs = length (filter (\<lambda>r. Tier r = ''Tier-1'') rs)"

text \<open>The number of Tier-1 rows the cap leaves of \<open>c\<close> Tier-1 rows, for a cap \<open>k\<close>.\<close>

definition capped :: "int \<Rightarrow> nat \<Rightarrow> nat" where
  "capped k c =
     (if k \<noteq> 0 \<and> int c > k then (if k < 0 then nat (max (int c + k) 0) else nat k) else c)"

definition with_tier1_min_score :: "DeviationConfig \<Rightarrow> int \<Rightarrow> DeviationConfig" where
  "with_tier1_min_score cfg a = cfg\<lparr>tiers := (tiers cfg)\<lparr>tier1_min_score := a\<rparr>\<rparr>"

text \<open>The table with its rows in the order \<open>\<pi> 0, \<pi> 1, \<dots>\<close>.\<close>

definition permute_rows :: "(nat \<Rightarrow> nat) \<Rightarrow> dataframe \<Rightarrow> dataframe" where
  "permute_rows \<pi> df = df\<lparr>df_rows := map (\<lambda>j. df_rows df ! \<pi> j) [0 ..< length (df_rows df)]\<rparr>"

definition summary :: "error + out_row list \<Rightarrow> error + (cell \<times> string \<times> int) list" where
  "summary res = map_sum id (map (\<lambda>r. (Account_Code r, Tier r, Score r))) res"

text \<open>The row loop appended a Tier-1 row.\<close>

definition is_t1 :: "error + out_row option \<Rightarrow> bool" where
  "is_t1 x = (case x of Inr (Some row) \<Rightarrow> Tier row = ''Tier-1'' | _ \<Rightarrow> False)"

text \<open>The rows that qualified for Tier-1, from the highest score to the lowest.\<close>

definition ranked_tier1 :: "out_row list \<Rightarrow> out_row list" where
  "ranked_tier1 rs = sort_key (\<lambda>r. - Score r) (filter (\<lambda>r. Tier r = ''Tier-1'') rs)"

definition P0 :: pylib where
  "P0 = \<lparr>py_float = (\<lambda>s. NaN), pd_numeric = (\<lambda>s. NaN), float_str = (\<lambda>f. ''nan'')\<rparr>"

definition cols0 :: "string list" where
  "cols0 = [''Account Code'', ''Account Name'', ''Credit_LY_Mean'', ''Credit_CY_Mean'',
            ''Credit_TTest_Significant'', ''Credit_KS_Significant'', ''Credit_Effect_Size'']"

text \<open>
  An account whose Credit mean moved from \<open>-100\<close> to \<open>200\<close>, with a significant t-test
  and Kolmogorov-Smirnov test and a large effect.
\<close>

definition strong_row :: "string \<Rightarrow> string \<Rightarrow> (string \<Rightarrow> cell)" where
  "strong_row code nm =
     (\<lambda>c. if c = ''Account Code'' then CStr code
          else if c = ''Account Name'' then CStr nm
          else if c = ''Credit_LY_Mean'' then CFloat (Fin (- 100))
          else if c = ''Credit_CY_Mean'' then CFloat (Fin 200)
          else if c = ''Credit_TTest_Significant'' then CBool True
          else if c = ''Credit_KS_Significant'' then CBool True
          else if c = ''Credit_Effect_Size'' then CStr ''large''
          else CNone)"

text \<open>
  An account whose numeric fields are all blank, with the t-test flag coded as the
  number \<open>1\<close>.
\<close>

definition blank_row :: "string \<Rightarrow> string \<Rightarrow> (string \<Rightarrow> cell)" where
  "blank_row code nm =
     (\<lambda>c. if c = ''Account Code'' then CStr code
          else if c = ''Account Name'' then CStr nm
          else if c = ''Credit_Effect_Size'' then CStr ''large''
          else if c = ''Credit_TTest_Significant'' then CInt 1
          else if c = ''Credit_KS_Significant'' then CFloat (Fin 1)
          else CFloat NaN)"

definition df_ab :: dataframe where
  "df_ab = \<lparr>df_columns = cols0, df_rows = [strong_row ''A'' ''Sales'', strong_row ''B'' ''Bank'']\<rparr>"

definition df_ba :: dataframe where
  "df_ba = \<lparr>df_columns = cols0, df_rows = [strong_row ''B'' ''Bank'', strong_row ''A'' ''Sales'']\<rparr>"


definition cfg_cap :: "int \<Rightarrow> DeviationConfig" where
  "cfg_cap k = default_config\<lparr>tiers := default_tiering\<lparr>max_tier1 := k\<rparr>\<rparr>"

text \<open>The report rows of the two strong accounts, for a given tier.\<close>

definition strong_out :: "string \<Rightarrow> string \<Rightarrow> string \<Rightarrow> string \<Rightarrow> out_row" where
  "strong_out tier code nm finish =
     \<lparr>Tier = tier, Account_Code = CStr code, Account_Name = CStr nm,
      Key_Metrics_Triggered = ''Distribution Change, Mean Shift, Large Effect Size, Sign Reversal'',
      Accounting_Interpretation =
        ''Credit postings: posting pattern changed versus last year; average level moved materially; change looks practically large, not just noise; direction flipped (possible reclass/contra entries). '' @ finish,
      Score = 17, Dominant_Metric = ''Credit''\<rparr>"

definition out_A :: "string \<Rightarrow> out_row" where
  "out_A tier = strong_out tier ''A'' ''Sales'' ''Check cut-off, pricing/mix changes, and recognition timing.''"

definition out_B :: "string \<Rightarrow> out_row" where
  "out_B tier = strong_out tier ''B'' ''Bank''
     ''Often driven by batch journals, timing, bank rule changes, or missed automation.''"

section \<open>Example inputs\<close>

definition S0 :: scipy where
  "S0 = \<lparr>ttest_ind = (\<lambda>_ _. (0, 1)), mannwhitneyu = (\<lambda>_ _. (0, 1)), f_oneway = (\<lambda>_ _. (0, 1)),
          ks_2samp = (\<lambda>_ _. (0, 1)), pearsonr = (\<lambda>_ _. (0, 1))\<rparr>"

definition frame_of :: "real list \<Rightarrow> agg" where
  "frame_of xs = \<lparr>agg_columns = [''Debit''], agg_rows = map (\<lambda>x. (POrd \<lfloor>x\<rfloor>, \<lambda>c. x)) xs\<rparr>"




section \<open>The statistical comparator\<close>







lemma evaluate_cohens:
  "cohens_d (evaluate_metric S ly cy) =
     (if pooled_std ly cy \<noteq> 0 then Fin ((mean cy - mean ly) / pooled_std ly cy) else NaN)"
  by (simp add: evaluate_metric_def Let_def describe_def)

lemma evaluate_effect:
  "effect_size (evaluate_metric S ly cy) =
     (if pooled_std ly cy \<noteq> 0 then effect_size_label ((mean cy - mean ly) / pooled_std ly cy)
      else ''none'')"
  by (simp add: evaluate_metric_def Let_def describe_def)

lemma evaluate_mean_diff:
  "mean_diff (evaluate_metric S ly cy) = mean cy - mean ly"
  by (simp add: evaluate_metric_def Let_def describe_def)

text \<open>
  Claim C4 (effect-size labelling).  For an evaluated metric whose pooled standard
  deviation is not zero, Cohen's d is the difference of the means divided by the
  root-mean-square of the two standard deviations, and the label is \<open>small\<close> for
  \<open>|d| < 0.2\<close>, \<open>medium\<close> for \<open>0.2 \<le> |d| < 0.5\<close>, \<open>large\<close> for \<open>|d| \<ge> 0.8\<close>
  and \<open>none\<close> in the gap \<open>0.5 \<le> |d| < 0.8\<close>.
\<close>
theorem effect_size_labelling:
  assumes "compare_metric S lastf curf column = Some r"
    and "pooled_std (series lastf column) (series curf column) \<noteq> 0"
  defines "d \<equiv> (mean (series curf column) - mean (series lastf column)) /
                sqrt (((std (series lastf column))\<^sup>2 + (std (series curf column))\<^sup>2) / 2)"
  shows "cohens_d r = Fin d
       \<and> (\<bar>d\<bar> < 0.2 \<longrightarrow> effect_size r = ''small'')
       \<and> (0.2 \<le> \<bar>d\<bar> \<and> \<bar>d\<bar> < 0.5 \<longrightarrow> effect_size r = ''medium'')
       \<and> (0.8 \<le> \<bar>d\<bar> \<longrightarrow> effect_size r = ''large'')
       \<and> (0.5 \<le> \<bar>d\<bar> \<and> \<bar>d\<bar> < 0.8 \<longrightarrow> effect_size r = ''none'')"
proof -
  have r: "r = evaluate_metric S (series lastf column) (series curf column)"
    using assms(1) by (auto simp: compare_metric_def split: if_splits)
  have d: "d = (mean (series curf column) - mean (series lastf column)) /
                 pooled_std (series lastf column) (series curf column)"
    by (simp add: d_def pooled_std_def)
  show ?thesis
    unfolding r evaluate_cohens evaluate_effect using assms(2)
    by (simp add: d [symmetric] effect_size_label_def)
qed


lemma series_frame_of: "series (frame_of xs) c = xs"
  by (simp add: series_def frame_of_def comp_def)

lemma sqrt4: "sqrt 4 = 2"
  by (rule real_sqrt_unique) simp_all

lemma std_024: "std [0, 2, 4] = 2"
  by (simp add: std_def variance_def mean_def sqrt4)

lemma std_101214: "std [10, 12, 14] = 2"
  by (simp add: std_def variance_def mean_def sqrt4)

lemma pooled_ex: "pooled_std [0, 2, 4] [10, 12, 14] = 2"
  by (simp add: pooled_std_def std_024 std_101214 sqrt4)

lemma nunique_024: "nunique [0, 2, 4] = 3" "nunique [10, 12, 14] = 3"
  by (simp_all add: nunique_def)

lemma compare_ex:
  "compare_metric S0 (frame_of [0, 2, 4]) (frame_of [10, 12, 14]) ''Debit''
     = Some (evaluate_metric S0 [0, 2, 4] [10, 12, 14])"
  by (simp add: compare_metric_def series_frame_of nunique_024) (simp add: frame_of_def)

theorem effect_size_labelling_witness:
  "compare_metric S0 (frame_of [0, 2, 4]) (frame_of [10, 12, 14]) ''Debit''
     = Some (evaluate_metric S0 [0, 2, 4] [10, 12, 14])
   \<and> pooled_std [0, 2, 4] [10, 12, 14] \<noteq> 0
   \<and> cohens_d (evaluate_metric S0 [0, 2, 4] [10, 12, 14]) = Fin 5
   \<and> effect_size (evaluate_metric S0 [0, 2, 4] [10, 12, 14]) = ''large''"
  using effect_size_labelling [of S0 "frame_of [0, 2, 4]" "frame_of [10, 12, 14]" "''Debit''"
          "evaluate_metric S0 [0, 2, 4] [10, 12, 14]"]
  by (simp add: compare_ex series_frame_of pooled_ex std_024 std_101214 sqrt4 mean_def)

















section \<open>Evidence and significance flags\<close>














lemma numeric_to_bool: "is_numeric_cell x \<Longrightarrow> to_bool x = None"
  by (cases x) (simp_all add: is_numeric_cell_def to_bool_def)

lemma check_names_1:
  "x \<in> set (check_distribution_change cfg v e) \<Longrightarrow> fst x \<in> (if dist_change v then {''Distribution Change''} else {})"
  by (auto simp: check_distribution_change_def Let_def split: if_splits)

lemma check_names_2:
  "x \<in> set (check_mean_shift cfg v e) \<Longrightarrow> fst x \<in> {''Mean Shift''}"
  by (auto simp: check_mean_shift_def Let_def split: if_splits)

lemma check_names_3:
  "x \<in> set (check_effect_size cfg p v e) \<Longrightarrow> fst x \<in> {''Large Effect Size'', ''Medium Effect Size''}"
  by (auto simp: check_effect_size_def Let_def split: if_splits)

lemma check_names_4:
  "x \<in> set (check_cv cfg p v mm) \<Longrightarrow> fst x \<in> {''High CV'', ''Moderate CV''}"
  by (auto simp: check_cv_def Let_def split: if_splits)

lemma check_names_5:
  "x \<in> set (check_low_mean_high_variance cfg p v mp sp) \<Longrightarrow> fst x \<in> {''Low Mean with High Variance''}"
  by (auto simp: check_low_mean_high_variance_def Let_def split: if_splits)

lemma check_names_6:
  "x \<in> set (check_mean_median_gap cfg v mm) \<Longrightarrow> fst x \<in> {''Mean-Median Gap''}"
  by (auto simp: check_mean_median_gap_def Let_def split: if_splits)

lemma check_names_7:
  "x \<in> set (check_pearson_skew cfg v mm) \<Longrightarrow> fst x \<in> {''Pearson Skew''}"
  by (auto simp: check_pearson_skew_def Let_def split: if_splits)

lemma check_names_8:
  "x \<in> set (check_volatility_jump cfg p v mm) \<Longrightarrow> fst x \<in> {''Volatility Jump''}"
  by (auto simp: check_volatility_jump_def Let_def split: if_splits)

lemma check_names_9:
  "x \<in> set (check_new_activity cfg v e) \<Longrightarrow> fst x \<in> {''New Activity / Re-start''}"
  by (auto simp: check_new_activity_def Let_def split: if_splits)

lemma check_names_10:
  "x \<in> set (check_sign_reversal cfg v mp) \<Longrightarrow> fst x \<in> {''Sign Reversal''}"
  by (auto simp: check_sign_reversal_def Let_def split: if_splits)

lemma no_dist_change_trigger:
  assumes "\<not> dist_change v"
  shows "''Distribution Change'' \<notin> set (trig_of (score_metric cfg p v mp sp))"
proof
  assume "''Distribution Change'' \<in> set (trig_of (score_metric cfg p v mp sp))"
  then obtain x where x: "x \<in> set (score_metric cfg p v mp sp)" "fst x = ''Distribution Change''"
    by (auto simp: trig_of_def)
  from x(1) have "fst x \<in> {''Mean Shift'', ''Large Effect Size'', ''Medium Effect Size'',
        ''High CV'', ''Moderate CV'', ''Low Mean with High Variance'', ''Mean-Median Gap'',
        ''Pearson Skew'', ''Volatility Jump'', ''New Activity / Re-start'', ''Sign Reversal''}"
    unfolding score_metric_def Let_def set_append Un_iff
    using assms
    by (elim disjE) (auto dest: check_names_1 check_names_2 check_names_3 check_names_4
          check_names_5 check_names_6 check_names_7 check_names_8 check_names_9 check_names_10)
  with x(2) show False by simp
qed

text \<open>
  Claim C9 (numeric-coded significance flags never count).  \<open>to_bool\<close> returns
  \<open>None\<close> for an int and for a float, so a significance cell holding a number
  contributes nothing: the Distribution Change condition then depends on the other
  distribution flag only, the Mean Shift significance condition on the other mean flag
  only, and with all four cells numeric neither condition holds and no Distribution
  Change trigger is recorded.
\<close>
theorem numeric_flags_never_count:
  "(is_numeric_cell x \<longrightarrow> to_bool x = None)
   \<and> (is_numeric_cell (get cols r (m @ ''_KS_Significant''))
        \<longrightarrow> dist_change (extract_vals P cols r m) = (mw_sig (extract_vals P cols r m) = Some True))
   \<and> (is_numeric_cell (get cols r (m @ ''_MannWhitney_Significant''))
        \<longrightarrow> dist_change (extract_vals P cols r m) = (ks_sig (extract_vals P cols r m) = Some True))
   \<and> (is_numeric_cell (get cols r (m @ ''_TTest_Significant''))
        \<longrightarrow> mean_change (extract_vals P cols r m) = (anova_sig (extract_vals P cols r m) = Some True))
   \<and> (is_numeric_cell (get cols r (m @ ''_ANOVA_Significant''))
        \<longrightarrow> mean_change (extract_vals P cols r m) = (t_sig (extract_vals P cols r m) = Some True))
   \<and> (is_numeric_cell (get cols r (m @ ''_KS_Significant''))
        \<and> is_numeric_cell (get cols r (m @ ''_MannWhitney_Significant''))
        \<and> is_numeric_cell (get cols r (m @ ''_TTest_Significant''))
        \<and> is_numeric_cell (get cols r (m @ ''_ANOVA_Significant''))
        \<longrightarrow> \<not> dist_change (extract_vals P cols r m)
          \<and> \<not> mean_change (extract_vals P cols r m)
          \<and> ''Distribution Change''
               \<notin> set (trig_of (score_metric cfg p (extract_vals P cols r m) mp sp)))"
proof -
  have d: "is_numeric_cell (get cols r (m @ ''_KS_Significant''))
        \<and> is_numeric_cell (get cols r (m @ ''_MannWhitney_Significant''))
      \<Longrightarrow> \<not> dist_change (extract_vals P cols r m)"
    by (simp add: dist_change_def extract_vals_def numeric_to_bool)
  show ?thesis
    using d no_dist_change_trigger [of "extract_vals P cols r m" cfg p mp sp]
    by (auto simp: dist_change_def mean_change_def extract_vals_def numeric_to_bool)
qed

lemma blank_flag_cells:
  "get cols0 (blank_row ''C'' ''Tax'') ''Credit_TTest_Significant'' = CInt 1"
  "get cols0 (blank_row ''C'' ''Tax'') ''Credit_KS_Significant'' = CFloat (Fin 1)"
  by (simp_all add: get_def cols0_def blank_row_def)

theorem numeric_flags_never_count_witness:
  "is_numeric_cell (CInt 1) \<and> to_bool (CInt 1) = None
   \<and> is_numeric_cell (CFloat (Fin 1)) \<and> to_bool (CFloat (Fin 1)) = None
   \<and> is_numeric_cell (get cols0 (blank_row ''C'' ''Tax'') (''Credit'' @ ''_TTest_Significant''))
   \<and> mean_change (extract_vals P0 cols0 (blank_row ''C'' ''Tax'') ''Credit'')
        = (anova_sig (extract_vals P0 cols0 (blank_row ''C'' ''Tax'') ''Credit'') = Some True)"
  using numeric_flags_never_count [of "CInt 1" cols0 "blank_row ''C'' ''Tax''" "''Credit''" P0]
        numeric_flags_never_count [of "CFloat (Fin 1)"]
  by (simp add: blank_flag_cells is_numeric_cell_def)

section \<open>Tiering and the Tier-1 cap\<close>

lemma capped_mono: "c \<le> c' \<Longrightarrow> capped k c \<le> capped k c'"
  by (auto simp: capped_def)

lemma capped_le: "0 < k \<Longrightarrow> int (capped k c) \<le> k"
  by (auto simp: capped_def)

lemma filter_notin_append:
  assumes "distinct (as @ bs)"
  shows "filter (\<lambda>l. l \<notin> set bs) (as @ bs) = as"
proof -
  have "filter (\<lambda>l. l \<notin> set bs) bs = []" by (simp add: filter_empty_conv)
  moreover have "filter (\<lambda>l. l \<notin> set bs) as = as"
    using assms by (auto simp: filter_id_conv)
  ultimately show ?thesis by simp
qed

lemma filter_drop_distinct:
  assumes "distinct xs"
  shows "filter (\<lambda>l. l \<notin> set (drop j xs)) xs = take j xs"
proof -
  have "distinct (take j xs @ drop j xs)" using assms by simp
  then have "filter (\<lambda>l. l \<notin> set (drop j xs)) (take j xs @ drop j xs) = take j xs"
    by (rule filter_notin_append)
  then show ?thesis by simp
qed

lemma filter_demoted:
  "filter (\<lambda>x. Tier (snd x) = ''Tier-1'') (set_tier2 D out)
   = filter (\<lambda>x. fst x \<notin> set D) (filter (\<lambda>x. Tier (snd x) = ''Tier-1'') out)"
  unfolding set_tier2_def by (induction out) auto

lemma length_filter_snd:
  "length (filter (\<lambda>x. P (snd x)) zs) = length (filter P (map snd zs))"
  by (induction zs) auto

lemma length_filter_fst:
  "length (filter (\<lambda>x. P (fst x)) zs) = length (filter P (map fst zs))"
  by (induction zs) auto

lemma count_tier1_sort: "count_tier1 (sort_report out) = count_tier1 out"
  by (simp add: count_tier1_def sort_report_def filter_sort)

lemma distinct_fst_sort: "distinct (map fst (sort_report out)) = distinct (map fst out)"
proof -
  have "mset (map fst (sort_report out)) = mset (map fst out)"
    by (simp add: sort_report_def)
  then show ?thesis by (rule mset_eq_imp_distinct_iff)
qed

lemma length_t1_idxs: "length (t1_idxs out) = count_tier1 out"
  by (simp add: t1_idxs_def count_tier1_def)

lemma demote_count:
  assumes "distinct (map fst out)"
  shows "count_tier1 (set_tier2 (drop j (t1_idxs out)) out) = min j (count_tier1 out)"
proof -
  have dt: "distinct (t1_idxs out)"
    unfolding t1_idxs_def using assms by (rule distinct_map_filter)
  have "count_tier1 (set_tier2 (drop j (t1_idxs out)) out)
          = length (filter (\<lambda>l. l \<notin> set (drop j (t1_idxs out))) (t1_idxs out))"
    unfolding count_tier1_def filter_demoted t1_idxs_def by (rule length_filter_fst)
  also have "\<dots> = length (take j (t1_idxs out))"
    using filter_drop_distinct [OF dt] by simp
  also have "\<dots> = min j (count_tier1 out)"
    by (simp add: length_t1_idxs min.commute)
  finally show ?thesis .
qed

lemma slice_from_drop:
  "slice_from k xs = drop (if k < 0 then nat (max (int (length xs) + k) 0) else nat k) xs"
  by (simp add: slice_from_def)

lemma count_tier1_apply_cap:
  assumes "distinct (map fst out)"
  shows "count_tier1 (apply_cap t out) = capped (max_tier1 t) (count_tier1 out)"
proof (cases "max_tier1 t \<noteq> 0 \<and> int (count_tier1 out) > max_tier1 t")
  case False
  then show ?thesis by (auto simp: apply_cap_def capped_def)
next
  case True
  define j where "j = (if max_tier1 t < 0 then nat (max (int (count_tier1 out) + max_tier1 t) 0)
                       else nat (max_tier1 t))"
  have "apply_cap t out = sort_report (set_tier2 (drop j (t1_idxs out)) out)"
    using True by (simp add: apply_cap_def slice_from_drop length_t1_idxs j_def)
  then have "count_tier1 (apply_cap t out) = min j (count_tier1 out)"
    using demote_count [OF assms] by (simp add: count_tier1_sort)
  also have "\<dots> = capped (max_tier1 t) (count_tier1 out)"
    using True by (auto simp: capped_def j_def)
  finally show ?thesis .
qed

lemma count_tier1_snd: "count_tier1 zs = tier1_count (map snd zs)"
  by (induction zs) (auto simp: count_tier1_def tier1_count_def)

lemma tier1_count_finish:
  "tier1_count (finish_report t rs) = capped (max_tier1 t) (tier1_count rs)"
proof (cases "rs = []")
  case True
  then show ?thesis by (auto simp: finish_report_def tier1_count_def capped_def)
next
  case False
  let ?z = "zip [0 ..< length rs] rs"
  have d: "distinct (map fst (sort_report ?z))"
    by (simp add: distinct_fst_sort)
  have c: "count_tier1 ?z = tier1_count rs"
    by (simp add: count_tier1_snd)
  have "tier1_count (map snd (apply_cap t (sort_report ?z))) = count_tier1 (apply_cap t (sort_report ?z))"
    by (simp add: count_tier1_snd)
  also have "\<dots> = capped (max_tier1 t) (count_tier1 (sort_report ?z))"
    using d by (rule count_tier1_apply_cap)
  finally show ?thesis using False c by (simp add: finish_report_def count_tier1_sort)
qed


lemma collect_tier1_count:
  "collect xs = Inr rs \<Longrightarrow> tier1_count rs = length (filter is_t1 xs)"
proof (induction xs arbitrary: rs)
  case Nil
  then show ?case by (simp add: tier1_count_def)
next
  case (Cons x xs)
  then show ?case
    by (auto simp: tier1_count_def is_t1_def split: sum.splits option.splits)
qed

lemma length_filter_mono:
  "(\<And>x. x \<in> set xs \<Longrightarrow> P x \<Longrightarrow> Q x) \<Longrightarrow> length (filter P xs) \<le> length (filter Q xs)"
  by (induction xs) auto

lemma cfg_parts_tiers [simp]:
  "en (cfg\<lparr>tiers := t\<rparr>) k = en cfg k"
  "prof (cfg\<lparr>tiers := t\<rparr>) m = prof cfg m"
  "eff_large (cfg\<lparr>tiers := t\<rparr>) v = eff_large cfg v"
  "eff_med (cfg\<lparr>tiers := t\<rparr>) v = eff_med cfg v"
  "big_move (cfg\<lparr>tiers := t\<rparr>) v = big_move cfg v"
  "checks_present (cfg\<lparr>tiers := t\<rparr>) = checks_present cfg"
  by (simp_all add: en_def prof_def eff_large_def eff_med_def big_move_def checks_present_def)

lemma score_metric_tiers: "score_metric (cfg\<lparr>tiers := t\<rparr>) p v mp sp = score_metric cfg p v mp sp"
  by (simp add: score_metric_def
        check_distribution_change_def check_mean_shift_def
        check_effect_size_def check_cv_def check_low_mean_high_variance_def
        check_mean_median_gap_def check_pearson_skew_def check_volatility_jump_def
        check_new_activity_def check_sign_reversal_def cong: if_cong)

lemma scored_metrics_tiers:
  "scored_metrics P (cfg\<lparr>tiers := t\<rparr>) cols ms mp sp r = scored_metrics P cfg cols ms mp sp r"
  by (simp add: scored_metrics_def score_metric_tiers)

lemma tier_of_mono:
  "a \<le> b \<Longrightarrow> tier_of (t\<lparr>tier1_min_score := b\<rparr>) tot mx = Some ''Tier-1''
     \<Longrightarrow> tier_of (t\<lparr>tier1_min_score := a\<rparr>) tot mx = Some ''Tier-1''"
  by (auto simp: tier_of_def split: if_splits option.splits)

lemma tier_of_t1:
  "tier_of t tot mx = Some tier \<Longrightarrow> tier = ''Tier-1'' \<Longrightarrow> tier_of t tot mx = Some ''Tier-1''"
  by simp


lemma score_row_t1_mono:
  assumes "a \<le> b"
    and "is_t1 (score_row P (with_tier1_min_score cfg b) cols ms mp sp r)"
  shows "is_t1 (score_row P (with_tier1_min_score cfg a) cols ms mp sp r)"
proof -
  let ?sm = "scored_metrics P cfg cols ms mp sp r"
  let ?tot = "total_score ?sm"
  let ?mx = "max_mean_pct_of mp ?sm"
  have tb: "tier_of ((tiers cfg)\<lparr>tier1_min_score := b\<rparr>) ?tot ?mx = Some ''Tier-1''"
    using assms(2)
    by (auto simp: is_t1_def score_row_def with_tier1_min_score_def scored_metrics_tiers Let_def
             split: if_splits option.splits sum.splits)
  have ta: "tier_of ((tiers cfg)\<lparr>tier1_min_score := a\<rparr>) ?tot ?mx = Some ''Tier-1''"
    using tier_of_mono [OF assms(1) tb] .
  show ?thesis
    using assms(2) ta tb
    by (auto simp: is_t1_def score_row_def with_tier1_min_score_def scored_metrics_tiers Let_def
             split: if_splits option.splits sum.splits)
qed

text \<open>
  Claim C6 (monotonic tiering).  With the input and every other configuration field
  fixed, a larger \<open>tier1_min_score\<close> never gives more Tier-1 rows in the report.
\<close>
theorem monotonic_tiering:
  assumes "a \<le> b"
    and "build_deviation_report P df (Some (with_tier1_min_score cfg a)) = Inr rep_a"
    and "build_deviation_report P df (Some (with_tier1_min_score cfg b)) = Inr rep_b"
  shows "tier1_count rep_b \<le> tier1_count rep_a"
proof -
  let ?ca = "with_tier1_min_score cfg a" and ?cb = "with_tier1_min_score cfg b"
  obtain rs_a where ra: "score_rows P ?ca df = Inr rs_a" "rep_a = finish_report (tiers ?ca) rs_a"
    using assms(2) by (auto simp: build_deviation_report_def cfg_or_default_def Let_def
        split: if_splits sum.splits)
  obtain rs_b where rb: "score_rows P ?cb df = Inr rs_b" "rep_b = finish_report (tiers ?cb) rs_b"
    using assms(3) by (auto simp: build_deviation_report_def cfg_or_default_def Let_def
        split: if_splits sum.splits)
  let ?idx = "[0 ..< length (df_rows df)]"
  have ca: "tier1_count rs_a = length (filter is_t1 (map (score_row_at P ?ca df) ?idx))"
    using ra(1) unfolding score_rows_def by (rule collect_tier1_count)
  have cb: "tier1_count rs_b = length (filter is_t1 (map (score_row_at P ?cb df) ?idx))"
    using rb(1) unfolding score_rows_def by (rule collect_tier1_count)
  have "length (filter (\<lambda>i. is_t1 (score_row_at P ?cb df i)) ?idx)
          \<le> length (filter (\<lambda>i. is_t1 (score_row_at P ?ca df i)) ?idx)"
    by (rule length_filter_mono) (auto simp: score_row_at_def intro: score_row_t1_mono [OF assms(1)])
  then have pre: "tier1_count rs_b \<le> tier1_count rs_a"
    unfolding ca cb by (simp add: filter_map comp_def)
  have mt: "max_tier1 (tiers ?ca) = max_tier1 (tiers ?cb)"
    by (simp add: with_tier1_min_score_def)
  show ?thesis
    unfolding ra(2) rb(2) tier1_count_finish mt
    using pre by (rule capped_mono)
qed


lemma sorted_sort_report:
  "sorted (map (\<lambda>x. (tier_rank (Tier (snd x)), - Score (snd x))) (sort_report out))"
  by (simp add: sort_report_def)

lemma sorted_apply_cap:
  assumes "sorted (map (\<lambda>x. (tier_rank (Tier (snd x)), - Score (snd x))) out)"
  shows "sorted (map (\<lambda>x. (tier_rank (Tier (snd x)), - Score (snd x))) (apply_cap t out))"
  using assms by (simp add: apply_cap_def sorted_sort_report Let_def)

lemma sorted_finish_report:
  "sorted (map (\<lambda>r. (tier_rank (Tier r), - Score r)) (finish_report t rs))"
proof (cases "rs = []")
  case True
  then show ?thesis by (simp add: finish_report_def)
next
  case False
  have "sorted (map (\<lambda>x. (tier_rank (Tier (snd x)), - Score (snd x)))
          (apply_cap t (sort_report (zip [0 ..< length rs] rs))))"
    by (rule sorted_apply_cap) (rule sorted_sort_report)
  then show ?thesis using False by (simp add: finish_report_def comp_def)
qed

lemma demoted_lowest:
  assumes d: "distinct (map fst out)"
    and s: "sorted (map (\<lambda>x. (tier_rank (Tier (snd x)), - Score (snd x))) out)"
    and x: "x \<in> set out" "Tier (snd x) = ''Tier-1''" "fst x \<notin> set (drop j (t1_idxs out))"
    and y: "y \<in> set out" "fst y \<in> set (drop j (t1_idxs out))"
  shows "Score (snd y) \<le> Score (snd x) \<and> Tier (snd y) = ''Tier-1''"
proof -
  let ?L = "filter (\<lambda>x. Tier (snd x) = ''Tier-1'') out"
  let ?key = "\<lambda>x::nat \<times> out_row. (tier_rank (Tier (snd x)), - Score (snd x))"
  have inj: "inj_on fst (set out)" using d by (simp add: distinct_map)
  have dr: "drop j (t1_idxs out) = map fst (drop j ?L)"
    by (simp add: t1_idxs_def drop_map)
  from y(2) obtain y' where y': "y' \<in> set (drop j ?L)" "fst y' = fst y"
    unfolding dr by auto
  have "y' \<in> set ?L" using y'(1) by (rule in_set_dropD)
  then have y'o: "y' \<in> set out" "Tier (snd y') = ''Tier-1''" by simp_all
  have yy: "y' = y" using inj y'o(1) y(1) y'(2) by (auto dest: inj_onD)
  have xL: "x \<in> set ?L" using x by simp
  have "x \<notin> set (drop j ?L)"
  proof
    assume "x \<in> set (drop j ?L)"
    then have "fst x \<in> set (map fst (drop j ?L))" by simp
    then show False using x(3) dr by simp
  qed
  moreover have "set ?L = set (take j ?L) \<union> set (drop j ?L)"
    by (metis append_take_drop_id set_append)
  ultimately have xt: "x \<in> set (take j ?L)" using xL by blast
  have "sorted (map ?key ?L)" using s by (rule sorted_filter)
  then have "sorted (map ?key (take j ?L) @ map ?key (drop j ?L))"
    by (metis append_take_drop_id map_append)
  then have "?key x \<le> ?key y'"
    using xt y'(1) by (auto simp: sorted_append)
  then have "Score (snd y') \<le> Score (snd x)"
    using x(2) y'o(2) by (simp add: less_eq_prod_def)
  then show ?thesis using yy y'o(2) by simp
qed

text \<open>
  Claim C2, amended (cap enforcement).  For a positive \<open>max_tier1\<close> the report never
  holds more Tier-1 rows than \<open>max_tier1\<close>: it holds the smaller of the cap and the
  number of rows that qualified.  The rows demoted are lowest-scoring ones: every
  demoted row qualified for Tier-1 and scores no more than any Tier-1 row that is
  kept.  The report is ordered by tier and then by score from high to low.
\<close>
theorem cap_enforcement:
  assumes "build_deviation_report P df c = Inr rep"
    and "0 < max_tier1 (tiers (cfg_or_default c))"
  shows "int (tier1_count rep) \<le> max_tier1 (tiers (cfg_or_default c))
       \<and> sorted (map (\<lambda>r. (tier_rank (Tier r), - Score r)) rep)
       \<and> (\<exists>rs. score_rows P (cfg_or_default c) df = Inr rs
              \<and> rep = finish_report (tiers (cfg_or_default c)) rs
              \<and> tier1_count rep = min (tier1_count rs) (nat (max_tier1 (tiers (cfg_or_default c))))
              \<and> (\<forall>x y. x \<in> set (sort_report (zip [0 ..< length rs] rs))
                      \<and> y \<in> set (sort_report (zip [0 ..< length rs] rs))
                      \<and> Tier (snd x) = ''Tier-1''
                      \<and> fst x \<notin> set (slice_from (max_tier1 (tiers (cfg_or_default c)))
                                         (t1_idxs (sort_report (zip [0 ..< length rs] rs))))
                      \<and> fst y \<in> set (slice_from (max_tier1 (tiers (cfg_or_default c)))
                                         (t1_idxs (sort_report (zip [0 ..< length rs] rs))))
                    \<longrightarrow> Score (snd y) \<le> Score (snd x) \<and> Tier (snd y) = ''Tier-1''))"
proof -
  let ?cfg = "cfg_or_default c"
  let ?k = "max_tier1 (tiers ?cfg)"
  obtain rs where rs: "score_rows P ?cfg df = Inr rs" "rep = finish_report (tiers ?cfg) rs"
    using assms(1) by (auto simp: build_deviation_report_def Let_def split: if_splits sum.splits)
  let ?out = "sort_report (zip [0 ..< length rs] rs)"
  have cnt: "tier1_count rep = capped ?k (tier1_count rs)"
    unfolding rs(2) by (rule tier1_count_finish)
  have c1: "int (tier1_count rep) \<le> ?k"
    unfolding cnt using assms(2) by (rule capped_le)
  have c2: "sorted (map (\<lambda>r. (tier_rank (Tier r), - Score r)) rep)"
    unfolding rs(2) by (rule sorted_finish_report)
  have c3: "tier1_count rep = min (tier1_count rs) (nat ?k)"
    unfolding cnt using assms(2) by (auto simp: capped_def)
  have d: "distinct (map fst ?out)" by (simp add: distinct_fst_sort)
  have sl: "slice_from ?k (t1_idxs ?out) = drop (nat ?k) (t1_idxs ?out)"
    using assms(2) by (simp add: slice_from_def)
  have c4: "\<forall>x y. x \<in> set ?out \<and> y \<in> set ?out \<and> Tier (snd x) = ''Tier-1''
              \<and> fst x \<notin> set (slice_from ?k (t1_idxs ?out))
              \<and> fst y \<in> set (slice_from ?k (t1_idxs ?out))
            \<longrightarrow> Score (snd y) \<le> Score (snd x) \<and> Tier (snd y) = ''Tier-1''"
    unfolding sl using demoted_lowest [OF d sorted_sort_report] by blast
  show ?thesis using c1 c2 c3 c4 rs by blast
qed

section \<open>The engine on the example accounts\<close>

lemma eval_rows_ab:
  "score_rows P0 default_config df_ab = Inr [out_A ''Tier-1'', out_B ''Tier-1'']"
  by code_simp

lemma eval_rows_ba:
  "score_rows P0 default_config df_ba = Inr [out_B ''Tier-1'', out_A ''Tier-1'']"
  by code_simp

lemma eval_rows_ab18:
  "score_rows P0 (with_tier1_min_score default_config 18) df_ab
     = Inr [out_A ''Tier-2'', out_B ''Tier-2'']"
  by code_simp

lemma tier_of_max_tier1: "tier_of (t\<lparr>max_tier1 := k\<rparr>) tot mx = tier_of t tot mx"
  by (cases mx) (simp_all add: tier_of_def)

lemma score_row_max_tier1:
  "score_row P (cfg\<lparr>tiers := (tiers cfg)\<lparr>max_tier1 := k\<rparr>\<rparr>) cols ms mp sp r
     = score_row P cfg cols ms mp sp r"
  by (simp add: score_row_def scored_metrics_tiers tier_of_max_tier1 Let_def
        cong: if_cong option.case_cong sum.case_cong)

lemma score_rows_cfg_cap: "score_rows P (cfg_cap k) df = score_rows P default_config df"
proof -
  have e: "cfg_cap k = default_config\<lparr>tiers := (tiers default_config)\<lparr>max_tier1 := k\<rparr>\<rparr>"
    by (simp add: cfg_cap_def default_config_def)
  show ?thesis
    unfolding e score_rows_def score_row_at_def score_row_max_tier1 ..
qed

lemma out_tier_score [simp]:
  "Tier (out_A t) = t" "Tier (out_B t) = t" "Score (out_A t) = 17" "Score (out_B t) = 17"
  "(out_A t)\<lparr>Tier := t'\<rparr> = out_A t'" "(out_B t)\<lparr>Tier := t'\<rparr> = out_B t'"
  by (simp_all add: out_A_def out_B_def strong_out_def)

lemma tiers_cfg_cap [simp]: "max_tier1 (tiers (cfg_cap k)) = k"
  by (simp add: cfg_cap_def)

lemma finish_two_cap1:
  assumes "max_tier1 t = 1"
  shows "finish_report t [out_A ''Tier-1'', out_B ''Tier-1''] = [out_A ''Tier-1'', out_B ''Tier-2'']"
    and "finish_report t [out_B ''Tier-1'', out_A ''Tier-1''] = [out_B ''Tier-1'', out_A ''Tier-2'']"
  using assms
  by (simp_all add: finish_report_def sort_report_def apply_cap_def count_tier1_def t1_idxs_def
        slice_from_def set_tier2_def tier_rank_def upt_rec [of 0] upt_rec [of 1])

lemma finish_two_nocap:
  assumes "max_tier1 t = 0 \<or> 2 \<le> max_tier1 t"
  shows "finish_report t [out_A u, out_B u] = [out_A u, out_B u]"
  using assms
  by (auto simp: finish_report_def sort_report_def apply_cap_def count_tier1_def
        upt_rec [of 0] upt_rec [of 1])

lemma build_cols0:
  assumes "df_columns df = cols0"
  shows "build_deviation_report P0 df (Some cfg)
           = map_sum id (finish_report (tiers cfg)) (score_rows P0 cfg df)"
proof -
  have m: "detect_metrics cols0 = [''Credit'']" by code_simp
  have a: "''Account Code'' \<in> set cols0" "''Account Name'' \<in> set cols0"
    by (simp_all add: cols0_def)
  show ?thesis
    by (cases "score_rows P0 cfg df")
       (simp_all add: build_deviation_report_def cfg_or_default_def assms m a Let_def)
qed

lemma cols_examples [simp]: "df_columns df_ab = cols0" "df_columns df_ba = cols0"
  by (simp_all add: df_ab_def df_ba_def)

lemma report_ab_cap1:
  "build_deviation_report P0 df_ab (Some (cfg_cap 1)) = Inr [out_A ''Tier-1'', out_B ''Tier-2'']"
  by (simp add: build_cols0 score_rows_cfg_cap eval_rows_ab finish_two_cap1)

lemma report_ba_cap1:
  "build_deviation_report P0 df_ba (Some (cfg_cap 1)) = Inr [out_B ''Tier-1'', out_A ''Tier-2'']"
  by (simp add: build_cols0 score_rows_cfg_cap eval_rows_ba finish_two_cap1)

lemma report_ab_cap0:
  "build_deviation_report P0 df_ab (Some (cfg_cap 0)) = Inr [out_A ''Tier-1'', out_B ''Tier-1'']"
  by (simp add: build_cols0 score_rows_cfg_cap eval_rows_ab finish_two_nocap)

lemma report_ab_min14:
  "build_deviation_report P0 df_ab (Some (with_tier1_min_score default_config 14))
     = Inr [out_A ''Tier-1'', out_B ''Tier-1'']"
proof -
  have "with_tier1_min_score default_config 14 = cfg_cap 10"
    by (simp add: with_tier1_min_score_def cfg_cap_def default_config_def default_tiering_def)
  then show ?thesis
    by (simp add: build_cols0 score_rows_cfg_cap eval_rows_ab finish_two_nocap)
qed

lemma report_ab_min18:
  "build_deviation_report P0 df_ab (Some (with_tier1_min_score default_config 18))
     = Inr [out_A ''Tier-2'', out_B ''Tier-2'']"
proof -
  have "max_tier1 (tiers (with_tier1_min_score default_config 18)) = 10"
    by (simp add: with_tier1_min_score_def default_config_def default_tiering_def)
  then show ?thesis
    by (simp add: build_cols0 eval_rows_ab18 finish_two_nocap)
qed

text \<open>
  Claim C2 as stated fails for \<open>max_tier1 = 0\<close>, which the guard
  \<open>if cfg.tiers.max_tier1 and ...\<close> reads as "no cap": two accounts qualify and both
  stay in Tier-1.
\<close>
theorem cap_enforcement_counterexample:
  "max_tier1 (tiers (cfg_or_default (Some (cfg_cap 0)))) = 0
   \<and> build_deviation_report P0 df_ab (Some (cfg_cap 0)) = Inr [out_A ''Tier-1'', out_B ''Tier-1'']
   \<and> tier1_count [out_A ''Tier-1'', out_B ''Tier-1''] = 2"
  by (simp add: report_ab_cap0 cfg_or_default_def tier1_count_def)

text \<open>With \<open>max_tier1 = 1\<close> the second of the two accounts is demoted.\<close>
theorem cap_enforcement_witness:
  "build_deviation_report P0 df_ab (Some (cfg_cap 1)) = Inr [out_A ''Tier-1'', out_B ''Tier-2'']
   \<and> 0 < max_tier1 (tiers (cfg_or_default (Some (cfg_cap 1))))
   \<and> int (tier1_count [out_A ''Tier-1'', out_B ''Tier-2'']) \<le> 1"
proof -
  have p: "0 < max_tier1 (tiers (cfg_or_default (Some (cfg_cap 1))))"
    by (simp add: cfg_or_default_def)
  show ?thesis
    using cap_enforcement [OF report_ab_cap1 p] p report_ab_cap1
    by (simp add: cfg_or_default_def)
qed

text \<open>Raising \<open>tier1_min_score\<close> from 14 to 18 moves both accounts out of Tier-1.\<close>
theorem monotonic_tiering_witness:
  "(14::int) \<le> 18
   \<and> build_deviation_report P0 df_ab (Some (with_tier1_min_score default_config 14))
       = Inr [out_A ''Tier-1'', out_B ''Tier-1'']
   \<and> build_deviation_report P0 df_ab (Some (with_tier1_min_score default_config 18))
       = Inr [out_A ''Tier-2'', out_B ''Tier-2'']
   \<and> tier1_count [out_A ''Tier-2'', out_B ''Tier-2''] \<le> tier1_count [out_A ''Tier-1'', out_B ''Tier-1'']"
proof -
  have h: "(14::int) \<le> 18" by simp
  show ?thesis
    using monotonic_tiering [OF h report_ab_min14 report_ab_min18] h report_ab_min14 report_ab_min18
    by simp
qed

section \<open>Row order\<close>

lemma mset_map_perm:
  assumes "bij_betw \<pi> {..<n} {..<n}"
  shows "mset (map \<pi> [0 ..< n]) = mset [0 ..< n]"
proof -
  have "mset (map \<pi> [0 ..< n]) = image_mset \<pi> (mset_set {0 ..< n})"
    by (simp add: mset_upt)
  also have "\<dots> = mset_set (\<pi> ` {0 ..< n})"
    using assms by (intro image_mset_mset_set) (auto simp: bij_betw_def atLeast0LessThan)
  also have "\<pi> ` {0 ..< n} = {0 ..< n}"
    using assms by (auto simp: bij_betw_def atLeast0LessThan)
  finally show ?thesis by (simp add: mset_upt)
qed

lemma mset_nth_perm:
  assumes "bij_betw \<pi> {..<length xs} {..<length xs}"
  shows "mset (map (\<lambda>j. xs ! \<pi> j) [0 ..< length xs]) = mset xs"
proof -
  have "mset (map (\<lambda>j. xs ! \<pi> j) [0 ..< length xs])
          = image_mset (nth xs) (mset (map \<pi> [0 ..< length xs]))"
    by (simp add: comp_def multiset.map_comp)
  also have "\<dots> = image_mset (nth xs) (mset [0 ..< length xs])"
    using mset_map_perm [OF assms] by simp
  also have "\<dots> = mset (map (nth xs) [0 ..< length xs])" by simp
  also have "\<dots> = mset xs" by (simp add: map_nth)
  finally show ?thesis .
qed

lemma perm_lt:
  assumes "bij_betw \<pi> {..<n} {..<n}" "j < n"
  shows "\<pi> j < n"
  using assms by (auto simp: bij_betw_def)

lemma length_filter_mset: "mset xs = mset ys \<Longrightarrow> length (filter Q xs) = length (filter Q ys)"
  by (metis mset_filter size_mset)

lemma rank_pct_cong:
  assumes "mset xs = mset ys"
  shows "rank_pct xs v = rank_pct ys v"
proof -
  have "length xs = length ys" using assms by (rule mset_eq_length)
  then show ?thesis
    unfolding rank_pct_def
    using length_filter_mset [OF assms, of "\<lambda>x. x < v"] length_filter_mset [OF assms, of "\<lambda>x. x = v"]
    by simp
qed

lemma mset_map_filter_id:
  "mset xs = mset ys \<Longrightarrow> mset (List.map_filter id xs) = mset (List.map_filter id ys)"
  by (simp add: List.map_filter_def)

lemma percentile_perm:
  assumes b: "bij_betw \<pi> {..<length (df_rows df)} {..<length (df_rows df)}"
    and j: "j < length (df_rows df)"
  shows "pct_at (percentile_rank_abs P (permute_rows \<pi> df) m s) j
       = pct_at (percentile_rank_abs P df m s) (\<pi> j)"
proof -
  let ?n = "length (df_rows df)"
  let ?col = "m @ ''_'' @ s"
  let ?f = "\<lambda>r. abs_finite (to_numeric P (r ?col))"
  let ?vals = "map ?f (df_rows df)"
  let ?vals' = "map ?f (df_rows (permute_rows \<pi> df))"
  have pj: "\<pi> j < ?n" using b j by (rule perm_lt)
  have v': "?vals' = map (\<lambda>j. ?vals ! \<pi> j) [0 ..< length ?vals]"
    using b by (auto simp: permute_rows_def dest: perm_lt)
  have ms: "mset ?vals' = mset ?vals"
    unfolding v' using b by (intro mset_nth_perm) simp
  have nn: "mset (List.map_filter id ?vals') = mset (List.map_filter id ?vals)"
    using ms by (rule mset_map_filter_id)
  have emp: "(List.map_filter id ?vals' = []) = (List.map_filter id ?vals = [])"
    using nn by (metis mset_zero_iff)
  have at: "?vals' ! j = ?vals ! \<pi> j" using j v' by simp
  have len: "length (df_rows (permute_rows \<pi> df)) = ?n" by (simp add: permute_rows_def)
  have cols: "df_columns (permute_rows \<pi> df) = df_columns df" by (simp add: permute_rows_def)
  show ?thesis
  proof (cases "?col \<in> set (df_columns df)")
    case False
    then show ?thesis using j pj len cols
      by (simp add: percentile_rank_abs_def pct_at_def Let_def)
  next
    case True
    show ?thesis
    proof (cases "List.map_filter id ?vals = []")
      case e: True
      then show ?thesis using True j pj len cols emp
        by (simp add: percentile_rank_abs_def pct_at_def Let_def)
    next
      case ne: False
      have l: "percentile_rank_abs P df m s
             = map (map_option (rank_pct (List.map_filter id ?vals))) ?vals"
        using True ne by (simp add: percentile_rank_abs_def Let_def)
      have ne': "List.map_filter id ?vals' \<noteq> []" using ne emp by simp
      have r: "percentile_rank_abs P (permute_rows \<pi> df) m s
             = map (map_option (rank_pct (List.map_filter id ?vals'))) ?vals'"
        using True ne' cols by (simp add: percentile_rank_abs_def Let_def)
      have rk: "rank_pct (List.map_filter id ?vals') = rank_pct (List.map_filter id ?vals)"
        using rank_pct_cong [OF nn] by (rule ext)
      have "pct_at (percentile_rank_abs P (permute_rows \<pi> df) m s) j
              = map_option (rank_pct (List.map_filter id ?vals)) (?vals' ! j)"
        unfolding r rk using j len by (simp add: pct_at_def)
      also have "\<dots> = map_option (rank_pct (List.map_filter id ?vals)) (?vals ! \<pi> j)"
        using at by simp
      also have "\<dots> = pct_at (percentile_rank_abs P df m s) (\<pi> j)"
        unfolding l using pj by (simp add: pct_at_def)
      finally show ?thesis .
    qed
  qed
qed

lemma score_row_at_perm:
  assumes b: "bij_betw \<pi> {..<length (df_rows df)} {..<length (df_rows df)}"
    and j: "j < length (df_rows df)"
  shows "score_row_at P cfg (permute_rows \<pi> df) j = score_row_at P cfg df (\<pi> j)"
proof -
  have r: "df_rows (permute_rows \<pi> df) ! j = df_rows df ! \<pi> j"
    using j by (simp add: permute_rows_def)
  have c: "df_columns (permute_rows \<pi> df) = df_columns df" by (simp add: permute_rows_def)
  show ?thesis
    unfolding score_row_at_def r c percentile_perm [OF b j] ..
qed


lemma collect_Inr_iff:
  "(collect xs = Inr rs)
     = ((\<forall>x\<in>set xs. \<not> isl x)
        \<and> rs = List.map_filter (\<lambda>x. case x of Inr o1 \<Rightarrow> o1 | Inl e \<Rightarrow> None) xs)"
proof (induction xs arbitrary: rs)
  case Nil
  then show ?case by (auto simp: List.map_filter_simps)
next
  case (Cons x xs)
  show ?case
  proof (cases x)
    case (Inl e)
    then show ?thesis by simp
  next
    case (Inr o1)
    show ?thesis
    proof (cases "collect xs")
      case (Inl e)
      then have "\<not> (\<forall>x\<in>set xs. \<not> isl x)" using Cons.IH by auto
      then show ?thesis using Inl Inr by auto
    next
      case r: (Inr ys)
      then have "(\<forall>x\<in>set xs. \<not> isl x)"
          "ys = List.map_filter (\<lambda>x. case x of Inr o1 \<Rightarrow> o1 | Inl e \<Rightarrow> None) xs"
        using Cons.IH [of ys] by simp_all
      then show ?thesis using r Inr
        by (cases o1) (auto simp: List.map_filter_simps)
    qed
  qed
qed

lemma collect_mset:
  assumes "mset xs' = mset xs" "collect xs = Inr rs"
  shows "\<exists>rs'. collect xs' = Inr rs' \<and> mset rs' = mset rs"
proof -
  let ?g = "\<lambda>x::error + 'a option. case x of Inr o1 \<Rightarrow> o1 | Inl e \<Rightarrow> None"
  have s: "set xs' = set xs" using assms(1) by (rule mset_eq_setD)
  have a: "\<forall>x\<in>set xs. \<not> isl x" and r: "rs = List.map_filter ?g xs"
    using assms(2) by (simp_all add: collect_Inr_iff)
  have "collect xs' = Inr (List.map_filter ?g xs')"
    using a s by (simp add: collect_Inr_iff)
  moreover have "mset (List.map_filter ?g xs') = mset (List.map_filter ?g xs)"
    using assms(1) by (simp add: List.map_filter_def)
  ultimately show ?thesis using r by simp
qed

lemma score_rows_perm:
  assumes b: "bij_betw \<pi> {..<length (df_rows df)} {..<length (df_rows df)}"
    and r: "score_rows P cfg df = Inr rs"
  shows "\<exists>rs'. score_rows P cfg (permute_rows \<pi> df) = Inr rs' \<and> mset rs' = mset rs"
proof -
  let ?n = "length (df_rows df)"
  have len: "length (df_rows (permute_rows \<pi> df)) = ?n" by (simp add: permute_rows_def)
  have e: "map (score_row_at P cfg (permute_rows \<pi> df)) [0 ..< ?n]
          = map (score_row_at P cfg df) (map \<pi> [0 ..< ?n])"
    using score_row_at_perm [OF b] by simp
  have "mset (map (score_row_at P cfg df) (map \<pi> [0 ..< ?n]))
          = image_mset (score_row_at P cfg df) (mset (map \<pi> [0 ..< ?n]))"
    by (rule mset_map)
  also have "\<dots> = image_mset (score_row_at P cfg df) (mset [0 ..< ?n])"
    by (simp only: mset_map_perm [OF b])
  also have "\<dots> = mset (map (score_row_at P cfg df) [0 ..< ?n])"
    by (rule mset_map [symmetric])
  finally have "mset (map (score_row_at P cfg (permute_rows \<pi> df)) [0 ..< ?n])
          = mset (map (score_row_at P cfg df) [0 ..< ?n])"
    by (simp only: e)
  then show ?thesis
    using r unfolding score_rows_def len by (rule collect_mset)
qed

end
